theory Spec2Isabelle
  imports Complex_Main "HOL-Library.Sublist"
begin

section \<open>Data model of monitor/check.py\<close>

text \<open>
  Python values are modelled as follows. An \<open>int\<close> is an \<open>int\<close>. A \<open>float\<close> clock reading
  or duration is a \<open>real\<close>: the rounding of float arithmetic is not modelled, so
  \<open>time.time() - start\<close> is the exact difference of the two readings. A \<open>str\<close> is a
  \<open>string\<close> holding the UTF-8 bytes of the text. \<open>None\<close> in an optional field is
  \<open>None\<close>.
\<close>

text \<open>
  A raised Python exception, as far as the \<open>except\<close> clauses of the program look at it:
  the \<open>isinstance\<close> tests they perform, and \<open>str(e)\<close>.
\<close>

record exc =
  is_Exception :: bool
  is_SSLError :: bool
  is_Timeout :: bool
  is_ConnectionError :: bool
  str_e :: string

text \<open>The dictionary built by \<open>check_health\<close> (the keys are fixed, so it is a record).\<close>

record outcome =
  success :: bool
  status_code :: "int option"
  response_time :: "real option"
  error :: "string option"
  timestamp :: string

text \<open>
  The notifier is any object with the two methods the monitor calls. From the monitor's side
  a call either returns (its value is discarded) or raises; which one may depend on the
  world \<open>'w\<close> at the time of the call.
\<close>

record 'w notifier =
  send_alert :: "'w \<Rightarrow> string \<Rightarrow> int option \<Rightarrow> string option \<Rightarrow> real option \<Rightarrow> exc option"
  send_recovery :: "'w \<Rightarrow> string \<Rightarrow> int \<Rightarrow> exc option"

text \<open>The attributes of a \<open>ProxyMonitor\<close> object.\<close>

record 'w ProxyMonitor =
  domain :: string
  url :: string
  notifier :: "'w notifier option"
  is_down :: bool
  downtime_start :: "real option"
  consecutive_failures :: int
  consecutive_successes :: int
  timeout :: int
  max_response_time :: int
  failure_threshold :: int
  recovery_threshold :: int

text \<open>\<open>ProxyMonitor.__init__\<close>.\<close>

definition ProxyMonitor_init :: "string \<Rightarrow> 'w notifier option \<Rightarrow> 'w ProxyMonitor" where
  "ProxyMonitor_init dname telegram_notifier =
     \<lparr> domain = dname,
       url = ''https://'' @ dname @ ''/health'',
       notifier = telegram_notifier,
       is_down = False,
       downtime_start = None,
       consecutive_failures = 0,
       consecutive_successes = 0,
       timeout = 15,
       max_response_time = 5,
       failure_threshold = 2,
       recovery_threshold = 2 \<rparr>"

text \<open>
  What one call of \<open>handle_check_result\<close> does to its collaborators, in order: the logger
  calls (by call site, with the values they format) and the notifier calls (with their
  arguments).
\<close>

datatype action =
    Log_recovered int
  | Log_check_passed "int option" real
  | Log_check_failed int int "string option"
  | Log_service_down "string option"
  | Call_send_recovery string int
  | Call_send_alert string "int option" "string option" "real option"

text \<open>
  An exception leaving \<open>handle_check_result\<close>: the \<open>TypeError\<close> of
  \<open>time.time() - None\<close>, or whatever the notifier raised.
\<close>

datatype handle_exc = TypeError | Notifier_raised exc

record 'w handled =
  mon :: "'w ProxyMonitor"
  acts :: "action list"
  raised :: "handle_exc option"

text \<open>One call of \<open>handle_check_result\<close> with what it reads from outside: the outcome, the
  reading \<open>time.time()\<close> gives during the call, and the world the notifier acts in.\<close>

record 'w tick =
  result :: outcome
  now :: real
  world :: 'w

section \<open>The state machine\<close>

text \<open>Python's \<open>int(x)\<close> on a float: truncation towards zero.\<close>

definition py_int :: "real \<Rightarrow> int" where
  "py_int x = (if 0 \<le> x then \<lfloor>x\<rfloor> else \<lceil>x\<rceil>)"

text \<open>Truthiness of an optional float, int and str: \<open>None\<close>, zero and the empty string are false.\<close>

definition truthy_float :: "real option \<Rightarrow> bool" where
  "truthy_float x = (case x of None \<Rightarrow> False | Some r \<Rightarrow> r \<noteq> 0)"

definition truthy_int :: "int option \<Rightarrow> bool" where
  "truthy_int x = (case x of None \<Rightarrow> False | Some i \<Rightarrow> i \<noteq> 0)"

definition truthy_str :: "string option \<Rightarrow> bool" where
  "truthy_str x = (case x of None \<Rightarrow> False | Some s \<Rightarrow> s \<noteq> [])"

text \<open>Lines 177-178: the closing log line of the success branch.\<close>

definition log_passed :: "outcome \<Rightarrow> action list" where
  "log_passed r =
     (if truthy_float (response_time r)
      then [Log_check_passed (status_code r) (the (response_time r))] else [])"

text \<open>Lines 173-175.\<close>

definition reset_recovered :: "'w ProxyMonitor \<Rightarrow> 'w ProxyMonitor" where
  "reset_recovered self =
     self\<lparr> is_down := False, downtime_start := None, consecutive_successes := 0 \<rparr>"

text \<open>\<open>ProxyMonitor.handle_check_result\<close>, lines 159-197.\<close>

definition handle_check_result :: "'w ProxyMonitor \<Rightarrow> 'w tick \<Rightarrow> 'w handled" where
  "handle_check_result self t =
     (let r = result t in
      if success r then
        (let s1 = self\<lparr> consecutive_failures := 0,
                         consecutive_successes := consecutive_successes self + 1 \<rparr>
         in if is_down s1 \<and> recovery_threshold s1 \<le> consecutive_successes s1 then
              (case downtime_start s1 of
                 None \<Rightarrow> \<lparr> mon = s1, acts = [], raised = Some TypeError \<rparr>
               | Some t0 \<Rightarrow>
                   (let downtime_duration = py_int (now t - t0);
                        a1 = [Log_recovered downtime_duration]
                    in case notifier s1 of
                         None \<Rightarrow>
                           \<lparr> mon = reset_recovered s1, acts = a1 @ log_passed r, raised = None \<rparr>
                       | Some n \<Rightarrow>
                           (let a2 = a1 @ [Call_send_recovery (domain s1) downtime_duration]
                            in case send_recovery n (world t) (domain s1) downtime_duration of
                                 Some e \<Rightarrow>
                                   \<lparr> mon = s1, acts = a2, raised = Some (Notifier_raised e) \<rparr>
                               | None \<Rightarrow>
                                   \<lparr> mon = reset_recovered s1, acts = a2 @ log_passed r,
                                     raised = None \<rparr>)))
            else \<lparr> mon = s1, acts = log_passed r, raised = None \<rparr>)
      else
        (let s1 = self\<lparr> consecutive_successes := 0,
                         consecutive_failures := consecutive_failures self + 1 \<rparr>;
             a0 = [Log_check_failed (consecutive_failures s1) (failure_threshold s1) (error r)]
         in if \<not> is_down s1 \<and> failure_threshold s1 \<le> consecutive_failures s1 then
              (let s2 = s1\<lparr> is_down := True, downtime_start := Some (now t) \<rparr>;
                   a1 = a0 @ [Log_service_down (error r)]
               in case notifier s2 of
                    None \<Rightarrow> \<lparr> mon = s2, acts = a1, raised = None \<rparr>
                  | Some n \<Rightarrow>
                      \<lparr> mon = s2,
                        acts = a1 @ [Call_send_alert (domain s2) (status_code r) (error r)
                                       (response_time r)],
                        raised = map_option Notifier_raised
                          (send_alert n (world t) (domain s2) (status_code r) (error r)
                             (response_time r)) \<rparr>)
            else \<lparr> mon = s1, acts = a0, raised = None \<rparr>))"

text \<open>
  Feeding a sequence of outcomes to \<open>handle_check_result\<close>, one call after the other on
  the same object. A call that raises leaves the object as it was at the raise, and the
  caller (the \<open>try\<close>/\<open>except\<close> of \<open>run_forever\<close>) goes on with the next one.
\<close>

definition feed :: "'w ProxyMonitor \<Rightarrow> 'w tick list \<Rightarrow> 'w ProxyMonitor" where
  "feed self ts = foldl (\<lambda>m t. mon (handle_check_result m t)) self ts"

text \<open>
  The successive calls of a feed, with what each one did: the same loop as \<open>feed\<close>, keeping
  every result.
\<close>

fun run :: "'w ProxyMonitor \<Rightarrow> 'w tick list \<Rightarrow> 'w handled list" where
  "run self [] = []"
| "run self (t # ts) = handle_check_result self t # run (mon (handle_check_result self t)) ts"

text \<open>The actions of the DOWN branch (lines 189-197) and of the RECOVERED branch
  (lines 168-171).\<close>

fun is_down_action :: "action \<Rightarrow> bool" where
  "is_down_action (Log_service_down e) = True"
| "is_down_action (Call_send_alert d sc e rt) = True"
| "is_down_action a = False"

fun is_recovery_action :: "action \<Rightarrow> bool" where
  "is_recovery_action (Log_recovered d) = True"
| "is_recovery_action (Call_send_recovery dn d) = True"
| "is_recovery_action a = False"

text \<open>The four state fields of the monitor.\<close>

definition state_fields :: "'w ProxyMonitor \<Rightarrow> bool \<times> real option \<times> int \<times> int" where
  "state_fields m =
     (is_down m, downtime_start m, consecutive_failures m, consecutive_successes m)"

text \<open>The state fields as \<open>__init__\<close> leaves them (lines 85-88).\<close>

definition initial :: "'w ProxyMonitor \<Rightarrow> bool" where
  "initial m \<longleftrightarrow>
     \<not> is_down m \<and> downtime_start m = None \<and>
     consecutive_failures m = 0 \<and> consecutive_successes m = 0"

section \<open>The probe\<close>

text \<open>Python's \<open>str\<close> of an \<open>int\<close>, as the f-strings render it: decimal digits, a minus sign
  for a negative number.\<close>

definition digit :: "nat \<Rightarrow> char" where
  "digit d = ''0123456789'' ! d"

fun str_nat :: "nat \<Rightarrow> string" where
  "str_nat n = (if n < 10 then [digit n] else str_nat (n div 10) @ [digit (n mod 10)])"

declare str_nat.simps [simp del]

definition py_str_int :: "int \<Rightarrow> string" where
  "py_str_int i = (if i < 0 then ''-'' @ str_nat (nat (- i)) else str_nat (nat i))"

text \<open>What \<open>requests.get\<close> does: it returns a response with a status code, or it raises.\<close>

datatype get_result = Response int | Raises exc

text \<open>What one call of \<open>check_health\<close> reads from outside: \<open>datetime.now().isoformat()\<close>,
  the two readings of \<open>time.time()\<close> around the request, and the request itself.\<close>

record probe_env =
  isoformat_now :: string
  start_time :: real
  http_get :: get_result
  end_time :: real

text \<open>
  \<open>ProxyMonitor.check_health\<close>, lines 108-157. The \<open>except\<close> clauses are tried in the
  order of the source; an exception none of them matches leaves the function (\<open>Inl\<close>).
  The logger calls are left out.
\<close>

definition check_health :: "'w ProxyMonitor \<Rightarrow> probe_env \<Rightarrow> exc + outcome" where
  "check_health self env =
     (let result0 = \<lparr> success = False, status_code = None, response_time = None,
                       error = None, timestamp = isoformat_now env \<rparr>
      in case http_get env of
           Response code \<Rightarrow>
             (let rt = end_time env - start_time env;
                  result1 = result0\<lparr> response_time := Some rt, status_code := Some code \<rparr>
              in if code = 200 then Inr (result1\<lparr> success := True \<rparr>)
                 else Inr (result1\<lparr> error := Some (''Bad status code: '' @ py_str_int code) \<rparr>))
         | Raises e \<Rightarrow>
             if is_SSLError e then
               Inr (result0\<lparr> error := Some (''SSL Error: '' @ str_e e) \<rparr>)
             else if is_Timeout e then
               Inr (result0\<lparr> error :=
                      Some (''Timeout after '' @ py_str_int (timeout self) @ ''s'') \<rparr>)
             else if is_ConnectionError e then
               Inr (result0\<lparr> error := Some (''Connection error: '' @ str_e e) \<rparr>)
             else if is_Exception e then
               Inr (result0\<lparr> error := Some (''Unexpected error: '' @ str_e e) \<rparr>)
             else Inl e)"

section \<open>The Telegram notifier\<close>

text \<open>The string literals of the messages, as the UTF-8 bytes of the source file.\<close>

text \<open>Line 51: the header of the down alert (a red circle and, in Russian, PROXY UNAVAILABLE
  in bold), then two newlines; 47 bytes of UTF-8.\<close>

definition alert_header :: string where
  "alert_header =
    [CHR 0xF0, CHR 0x9F, CHR 0x94, CHR 0xB4] @ '' <b>'' @ [CHR 0xD0, CHR 0x9F, CHR 0xD0,
      CHR 0xA0, CHR 0xD0, CHR 0x9E, CHR 0xD0, CHR 0x9A, CHR 0xD0, CHR 0xA1, CHR 0xD0,
      CHR 0x98] @ '' '' @ [CHR 0xD0, CHR 0x9D, CHR 0xD0, CHR 0x95, CHR 0xD0, CHR 0x94,
      CHR 0xD0, CHR 0x9E, CHR 0xD0, CHR 0xA1, CHR 0xD0, CHR 0xA2, CHR 0xD0, CHR 0xA3,
      CHR 0xD0, CHR 0x9F, CHR 0xD0, CHR 0x95, CHR 0xD0, CHR 0x9D] @ ''</b>'' @ [CHR 0x0A,
      CHR 0x0A]"

text \<open>Lines 52 and 69: the label of the domain line; 19 bytes of UTF-8.\<close>

definition label_domain :: string where
  "label_domain =
    ''<b>'' @ [CHR 0xD0, CHR 0x94, CHR 0xD0, CHR 0xBE, CHR 0xD0, CHR 0xBC, CHR 0xD0,
      CHR 0xB5, CHR 0xD0, CHR 0xBD] @ '':</b> ''"

text \<open>Lines 53 and 70: the label of the time line; 19 bytes of UTF-8.\<close>

definition label_time :: string where
  "label_time =
    ''<b>'' @ [CHR 0xD0, CHR 0x92, CHR 0xD1, CHR 0x80, CHR 0xD0, CHR 0xB5, CHR 0xD0,
      CHR 0xBC, CHR 0xD1, CHR 0x8F] @ '':</b> ''"

text \<open>Line 56: the label of the status line; 21 bytes of UTF-8.\<close>

definition label_status :: string where
  "label_status =
    ''<b>'' @ [CHR 0xD0, CHR 0xA1, CHR 0xD1, CHR 0x82, CHR 0xD0, CHR 0xB0, CHR 0xD1,
      CHR 0x82, CHR 0xD1, CHR 0x83, CHR 0xD1, CHR 0x81] @ '':</b> ''"

text \<open>Line 58: the label of the response-time line; 32 bytes of UTF-8.\<close>

definition label_response_time :: string where
  "label_response_time =
    ''<b>'' @ [CHR 0xD0, CHR 0x92, CHR 0xD1, CHR 0x80, CHR 0xD0, CHR 0xB5, CHR 0xD0,
      CHR 0xBC, CHR 0xD1, CHR 0x8F] @ '' '' @ [CHR 0xD0, CHR 0xBE, CHR 0xD1, CHR 0x82,
      CHR 0xD0, CHR 0xB2, CHR 0xD0, CHR 0xB5, CHR 0xD1, CHR 0x82, CHR 0xD0, CHR 0xB0] @
    '':</b> ''"

text \<open>Line 60: the label of the error line; 21 bytes of UTF-8.\<close>

definition label_error :: string where
  "label_error =
    ''<b>'' @ [CHR 0xD0, CHR 0x9E, CHR 0xD1, CHR 0x88, CHR 0xD0, CHR 0xB8, CHR 0xD0,
      CHR 0xB1, CHR 0xD0, CHR 0xBA, CHR 0xD0, CHR 0xB0] @ '':</b> ''"

text \<open>Line 62: the footer of the down alert (check the server and the DNS settings); 68 bytes
  of UTF-8.\<close>

definition alert_footer :: string where
  "alert_footer =
    [CHR 0x0A, CHR 0xE2, CHR 0x9A, CHR 0xA0, CHR 0xEF, CHR 0xB8, CHR 0x8F] @ '' <i>'' @ [
      CHR 0xD0, CHR 0x9F, CHR 0xD1, CHR 0x80, CHR 0xD0, CHR 0xBE, CHR 0xD0, CHR 0xB2,
      CHR 0xD0, CHR 0xB5, CHR 0xD1, CHR 0x80, CHR 0xD1, CHR 0x8C] @ '' '' @ [CHR 0xD1,
      CHR 0x81, CHR 0xD0, CHR 0xB5, CHR 0xD1, CHR 0x80, CHR 0xD0, CHR 0xB2, CHR 0xD0,
      CHR 0xB5, CHR 0xD1, CHR 0x80] @ '' '' @ [CHR 0xD0, CHR 0xB8] @ '' DNS '' @ [CHR 0xD0,
      CHR 0xBD, CHR 0xD0, CHR 0xB0, CHR 0xD1, CHR 0x81, CHR 0xD1, CHR 0x82, CHR 0xD1,
      CHR 0x80, CHR 0xD0, CHR 0xBE, CHR 0xD0, CHR 0xB9, CHR 0xD0, CHR 0xBA, CHR 0xD0,
      CHR 0xB8] @ ''</i>''"

text \<open>Line 68: the header of the recovery message (PROXY RESTORED); 50 bytes of UTF-8.\<close>

definition recovery_header :: string where
  "recovery_header =
    [CHR 0xE2, CHR 0x9C, CHR 0x85] @ '' <b>'' @ [CHR 0xD0, CHR 0x9F, CHR 0xD0, CHR 0xA0,
      CHR 0xD0, CHR 0x9E, CHR 0xD0, CHR 0x9A, CHR 0xD0, CHR 0xA1, CHR 0xD0, CHR 0x98] @
    '' '' @ [CHR 0xD0, CHR 0x92, CHR 0xD0, CHR 0x9E, CHR 0xD0, CHR 0xA1, CHR 0xD0,
      CHR 0xA1, CHR 0xD0, CHR 0xA2, CHR 0xD0, CHR 0x90, CHR 0xD0, CHR 0x9D, CHR 0xD0,
      CHR 0x9E, CHR 0xD0, CHR 0x92, CHR 0xD0, CHR 0x9B, CHR 0xD0, CHR 0x95, CHR 0xD0,
      CHR 0x9D] @ ''</b>'' @ [CHR 0x0A, CHR 0x0A]"

text \<open>Line 71: the label of the downtime line; 25 bytes of UTF-8.\<close>

definition label_downtime :: string where
  "label_downtime =
    ''<b>'' @ [CHR 0xD0, CHR 0x94, CHR 0xD0, CHR 0xB0, CHR 0xD1, CHR 0x83, CHR 0xD0,
      CHR 0xBD, CHR 0xD1, CHR 0x82, CHR 0xD0, CHR 0xB0, CHR 0xD0, CHR 0xB9, CHR 0xD0,
      CHR 0xBC] @ '':</b> ''"

text \<open>Line 71: the unit after the downtime (seconds) and the newline; 14 bytes of UTF-8.\<close>

definition seconds_suffix :: string where
  "seconds_suffix =
    '' '' @ [CHR 0xD1, CHR 0x81, CHR 0xD0, CHR 0xB5, CHR 0xD0, CHR 0xBA, CHR 0xD1,
      CHR 0x83, CHR 0xD0, CHR 0xBD, CHR 0xD0, CHR 0xB4, CHR 0x0A]"

text \<open>Line 72: the footer of the recovery message (everything works normally); 55 bytes of
  UTF-8.\<close>

definition recovery_footer :: string where
  "recovery_footer =
    [CHR 0x0A, CHR 0xF0, CHR 0x9F, CHR 0x8E, CHR 0x89] @ '' <i>'' @ [CHR 0xD0, CHR 0x92,
      CHR 0xD1, CHR 0x81, CHR 0xD1, CHR 0x91] @ '' '' @ [CHR 0xD1, CHR 0x80, CHR 0xD0,
      CHR 0xB0, CHR 0xD0, CHR 0xB1, CHR 0xD0, CHR 0xBE, CHR 0xD1, CHR 0x82, CHR 0xD0,
      CHR 0xB0, CHR 0xD0, CHR 0xB5, CHR 0xD1, CHR 0x82] @ '' '' @ [CHR 0xD0, CHR 0xBD,
      CHR 0xD0, CHR 0xBE, CHR 0xD1, CHR 0x80, CHR 0xD0, CHR 0xBC, CHR 0xD0, CHR 0xB0,
      CHR 0xD0, CHR 0xBB, CHR 0xD1, CHR 0x8C, CHR 0xD0, CHR 0xBD, CHR 0xD0, CHR 0xBE] @
    ''</i>''"

text \<open>
  The rendering \<open>{x:.2f}\<close> of a float: the value rounded to hundredths (a tie goes to the
  even neighbour), with at least one digit before the point and a minus sign for a negative
  value.
\<close>

definition round_half_even :: "real \<Rightarrow> int" where
  "round_half_even x =
     (let f = \<lfloor>x\<rfloor>
      in if x - of_int f < 1 / 2 then f
         else if 1 / 2 < x - of_int f then f + 1
         else if even f then f else f + 1)"

definition format_2f :: "real \<Rightarrow> string" where
  "format_2f x =
     (let n = nat (round_half_even (\<bar>x\<bar> * 100))
      in (if x < 0 then ''-'' else []) @ str_nat (n div 100) @ ''.'' @
         [digit (n mod 100 div 10), digit (n mod 10)])"

record TelegramNotifier =
  bot_token :: string
  chat_id :: string
  base_url :: string

text \<open>\<open>TelegramNotifier.__init__\<close>.\<close>

definition TelegramNotifier_init :: "string \<Rightarrow> string \<Rightarrow> TelegramNotifier" where
  "TelegramNotifier_init token chat =
     \<lparr> bot_token = token, chat_id = chat,
       base_url = ''https://api.telegram.org/bot'' @ token \<rparr>"

text \<open>The JSON payload of \<open>send_message\<close>.\<close>

record payload =
  payload_chat_id :: string
  payload_text :: string
  payload_parse_mode :: string
  payload_disable_web_page_preview :: bool

text \<open>
  What the notifier reads from outside during one call: what \<open>requests.post\<close> followed by
  \<open>raise_for_status\<close> does with a URL and a payload (\<open>None\<close>: both return; \<open>Some e\<close>: one
  of them raises \<open>e\<close>), and \<open>datetime.now().strftime('%Y-%m-%d %H:%M:%S')\<close>.
\<close>

record telegram_world =
  post :: "string \<Rightarrow> payload \<Rightarrow> exc option"
  strftime_now :: string

text \<open>\<open>TelegramNotifier.send_message\<close>, lines 31-46: \<open>except Exception\<close> turns every
  exception that is an \<open>Exception\<close> into the result \<open>False\<close>; any other leaves the method.\<close>

definition send_message ::
  "TelegramNotifier \<Rightarrow> telegram_world \<Rightarrow> string \<Rightarrow> string \<Rightarrow> exc + bool" where
  "send_message self w txt parse_mode =
     (case post w (base_url self @ ''/sendMessage'')
             \<lparr> payload_chat_id = chat_id self, payload_text = txt,
               payload_parse_mode = parse_mode, payload_disable_web_page_preview = True \<rparr> of
        None \<Rightarrow> Inr True
      | Some e \<Rightarrow> if is_Exception e then Inr False else Inl e)"

text \<open>The \<open>message\<close> built by \<open>send_alert\<close>, lines 51-62.\<close>

definition alert_message ::
  "telegram_world \<Rightarrow> string \<Rightarrow> int option \<Rightarrow> string option \<Rightarrow> real option \<Rightarrow> string" where
  "alert_message w dname sc err rt =
     alert_header @
     label_domain @ dname @ [CHR 0x0A] @
     label_time @ strftime_now w @ [CHR 0x0A] @
     (if truthy_int sc then label_status @ py_str_int (the sc) @ [CHR 0x0A] else []) @
     (if truthy_float rt then label_response_time @ format_2f (the rt) @ ''s'' @ [CHR 0x0A]
      else []) @
     (if truthy_str err then label_error @ the err @ [CHR 0x0A] else []) @
     alert_footer"

text \<open>The \<open>message\<close> built by \<open>send_recovery\<close>, lines 68-72.\<close>

definition recovery_message :: "telegram_world \<Rightarrow> string \<Rightarrow> int \<Rightarrow> string" where
  "recovery_message w dname downtime_duration =
     recovery_header @
     label_domain @ dname @ [CHR 0x0A] @
     label_time @ strftime_now w @ [CHR 0x0A] @
     label_downtime @ py_str_int downtime_duration @ seconds_suffix @
     recovery_footer"

text \<open>\<open>TelegramNotifier.send_alert\<close> and \<open>send_recovery\<close>: the message goes to
  \<open>send_message\<close> with the default \<open>parse_mode\<close>, whose result is dropped.\<close>

definition TelegramNotifier_send_alert ::
  "TelegramNotifier \<Rightarrow> telegram_world \<Rightarrow> string \<Rightarrow> int option \<Rightarrow> string option \<Rightarrow>
     real option \<Rightarrow> exc option" where
  "TelegramNotifier_send_alert self w dname sc err rt =
     (case send_message self w (alert_message w dname sc err rt) ''HTML'' of
        Inl e \<Rightarrow> Some e | Inr delivered \<Rightarrow> None)"

definition TelegramNotifier_send_recovery ::
  "TelegramNotifier \<Rightarrow> telegram_world \<Rightarrow> string \<Rightarrow> int \<Rightarrow> exc option" where
  "TelegramNotifier_send_recovery self w dname downtime_duration =
     (case send_message self w (recovery_message w dname downtime_duration) ''HTML'' of
        Inl e \<Rightarrow> Some e | Inr delivered \<Rightarrow> None)"

text \<open>A \<open>TelegramNotifier\<close> object in the place of the monitor's notifier.\<close>

definition telegram :: "TelegramNotifier \<Rightarrow> telegram_world notifier" where
  "telegram self =
     \<lparr> send_alert = TelegramNotifier_send_alert self,
       send_recovery = TelegramNotifier_send_recovery self \<rparr>"

section \<open>Example inputs\<close>

text \<open>A healthy check, a failed check, and a call of \<open>handle_check_result\<close> at a given
  clock reading.\<close>

definition ok_outcome :: outcome where
  "ok_outcome =
     \<lparr> success = True, status_code = Some 200, response_time = Some (1 / 4),
       error = None, timestamp = ''2024-05-01T12:00:00'' \<rparr>"

definition bad_outcome :: outcome where
  "bad_outcome =
     \<lparr> success = False, status_code = Some 502, response_time = Some (1 / 2),
       error = Some ''Bad status code: 502'', timestamp = ''2024-05-01T12:00:00'' \<rparr>"

definition tick_at :: "outcome \<Rightarrow> real \<Rightarrow> 'w \<Rightarrow> 'w tick" where
  "tick_at r t w = \<lparr> result = r, now = t, world = w \<rparr>"

text \<open>The scenario of the specification, one check every 300 seconds:
  fail, fail, success, fail, fail, success, success.\<close>

definition scenario :: "unit tick list" where
  "scenario =
     [tick_at bad_outcome 1000 (), tick_at bad_outcome 1300 (), tick_at ok_outcome 1600 (),
      tick_at bad_outcome 1900 (), tick_at bad_outcome 2200 (), tick_at ok_outcome 2500 (),
      tick_at ok_outcome (5601 / 2) ()]"

text \<open>A monitor without a notifier, as \<open>main\<close> builds it when the Telegram variables are
  not set.\<close>

definition plain_monitor :: "unit ProxyMonitor" where
  "plain_monitor = ProxyMonitor_init ''proxy.example.org'' None"

text \<open>Probes: the endpoint answers 503 after 0.75 seconds; the endpoint answers 200; the
  connection attempt times out (in \<open>requests\<close> a \<open>ConnectTimeout\<close> is both a
  \<open>ConnectionError\<close> and a \<open>Timeout\<close>).\<close>

definition env503 :: probe_env where
  "env503 =
     \<lparr> isoformat_now = ''2024-05-01T12:00:00.000000'', start_time = 1000,
       http_get = Response 503, end_time = 1000 + 3 / 4 \<rparr>"

definition env200 :: probe_env where
  "env200 =
     \<lparr> isoformat_now = ''2024-05-01T12:05:00.000000'', start_time = 1300,
       http_get = Response 200, end_time = 1300 + 1 / 4 \<rparr>"

definition connect_timeout :: exc where
  "connect_timeout =
     \<lparr> is_Exception = True, is_SSLError = False, is_Timeout = True,
       is_ConnectionError = True, str_e = ''connect timed out'' \<rparr>"

definition env_timeout :: probe_env where
  "env_timeout =
     \<lparr> isoformat_now = ''2024-05-01T12:10:00.000000'', start_time = 1600,
       http_get = Raises connect_timeout, end_time = 1615 \<rparr>"

text \<open>Two notifiers of another class: one whose methods raise, one whose methods return.\<close>

definition boom :: exc where
  "boom =
     \<lparr> is_Exception = True, is_SSLError = False, is_Timeout = False,
       is_ConnectionError = False, str_e = ''boom'' \<rparr>"

definition raising_notifier :: "unit notifier" where
  "raising_notifier =
     \<lparr> send_alert = (\<lambda>w d sc e rt. Some boom), send_recovery = (\<lambda>w d n. Some boom) \<rparr>"

definition quiet_notifier :: "unit notifier" where
  "quiet_notifier =
     \<lparr> send_alert = (\<lambda>w d sc e rt. None), send_recovery = (\<lambda>w d n. None) \<rparr>"

text \<open>Telegram worlds: the message is delivered; the Telegram API is unreachable.\<close>

definition delivering :: telegram_world where
  "delivering = \<lparr> post = (\<lambda>u p. None), strftime_now = ''2024-05-01 12:05:00'' \<rparr>"

definition unreachable :: telegram_world where
  "unreachable =
     \<lparr> post = (\<lambda>u p. Some \<lparr> is_Exception = True, is_SSLError = False, is_Timeout = False,
                              is_ConnectionError = True, str_e = ''Max retries exceeded'' \<rparr>),
       strftime_now = ''2024-05-01 12:05:00'' \<rparr>"

definition telegram_monitor :: "telegram_world ProxyMonitor" where
  "telegram_monitor =
     ProxyMonitor_init ''proxy.example.org''
       (Some (telegram (TelegramNotifier_init ''123:abc'' ''-1001'')))"

text \<open>A probe whose two clock readings coincide, answered with 503.\<close>

definition env_instant :: probe_env where
  "env_instant =
     \<lparr> isoformat_now = ''2024-05-01T12:00:00.000000'', start_time = 1000,
       http_get = Response 503, end_time = 1000 \<rparr>"

text \<open>An outage: two failed checks, then two healthy ones, 300 seconds apart.\<close>

definition outage :: "'w \<Rightarrow> 'w tick list" where
  "outage w =
     [tick_at bad_outcome 1000 w, tick_at bad_outcome 1300 w, tick_at ok_outcome 1600 w,
      tick_at ok_outcome 1900 w]"

text \<open>The outcome of \<open>check_health\<close> on \<open>env_instant\<close>.\<close>

definition instant_outcome :: outcome where
  "instant_outcome =
     \<lparr> success = False, status_code = Some 503, response_time = Some 0,
       error = Some ''Bad status code: 503'', timestamp = ''2024-05-01T12:00:00.000000'' \<rparr>"

text \<open>A monitor with a notifier whose methods return, one with a notifier whose methods
  raise, and three runs of checks.\<close>

definition notified_monitor :: "unit ProxyMonitor" where
  "notified_monitor = ProxyMonitor_init ''proxy.example.org'' (Some quiet_notifier)"

definition raising_monitor :: "unit ProxyMonitor" where
  "raising_monitor = ProxyMonitor_init ''proxy.example.org'' (Some raising_notifier)"

definition healthy_start :: "unit tick list" where
  "healthy_start = [tick_at ok_outcome 700 ()]"

definition three_failures :: "unit tick list" where
  "three_failures =
     [tick_at bad_outcome 1000 (), tick_at bad_outcome 1300 (), tick_at bad_outcome 1600 ()]"

definition three_successes :: "unit tick list" where
  "three_successes =
     [tick_at ok_outcome 1600 (), tick_at ok_outcome 1900 (), tick_at ok_outcome 2200 ()]"

section \<open>Basic facts\<close>

lemma initial_init: "initial (ProxyMonitor_init dname n)"
  by (simp add: initial_def ProxyMonitor_init_def)

lemma feed_Nil: "feed m [] = m"
  by (simp add: feed_def)

lemma feed_snoc: "feed m (ts @ [t]) = mon (handle_check_result (feed m ts) t)"
  by (simp add: feed_def)

lemma feed_Cons: "feed m (t # ts) = feed (mon (handle_check_result m t)) ts"
  by (simp add: feed_def)

lemma handle_counters:
  "consecutive_failures (mon (handle_check_result m t)) = 0 \<or>
   consecutive_successes (mon (handle_check_result m t)) = 0"
  by (simp add: handle_check_result_def reset_recovered_def Let_def
      split: option.splits)

lemma handle_downtime_iff:
  "(downtime_start m \<noteq> None) = is_down m \<Longrightarrow>
   (downtime_start (mon (handle_check_result m t)) \<noteq> None)
     = is_down (mon (handle_check_result m t))"
  by (auto simp add: handle_check_result_def reset_recovered_def Let_def
      split: option.splits)

text \<open>The equations that evaluate a run on concrete inputs.\<close>

lemmas run_simps =
  raising_monitor_def plain_monitor_def scenario_def tick_at_def ok_outcome_def bad_outcome_def feed_def
  handle_check_result_def ProxyMonitor_init_def Let_def reset_recovered_def py_int_def
  log_passed_def truthy_float_def outage_def raising_notifier_def quiet_notifier_def
  boom_def state_fields_def telegram_monitor_def telegram_def
  TelegramNotifier_send_alert_def TelegramNotifier_send_recovery_def send_message_def
  delivering_def unreachable_def TelegramNotifier_init_def notified_monitor_def
  healthy_start_def three_failures_def three_successes_def

lemma handle_config:
  "failure_threshold (mon (handle_check_result m t)) = failure_threshold m"
  "recovery_threshold (mon (handle_check_result m t)) = recovery_threshold m"
  "notifier (mon (handle_check_result m t)) = notifier m"
  "domain (mon (handle_check_result m t)) = domain m"
  by (simp_all add: handle_check_result_def reset_recovered_def Let_def split: option.splits)

lemma telegram_returns:
  assumes "\<forall>u p e. post w u p = Some e \<longrightarrow> is_Exception e"
  shows "send_recovery (telegram tn) w dn d = None"
    and "send_alert (telegram tn) w dn sc er rt = None"
  using assms
  by (auto simp add: telegram_def TelegramNotifier_send_recovery_def
      TelegramNotifier_send_alert_def send_message_def split: option.splits sum.splits)

lemma sublist_between: "ys = ps @ xs @ ss \<Longrightarrow> sublist xs ys"
  by (auto simp add: sublist_def)

lemma feed_config:
  "failure_threshold (feed m ts) = failure_threshold m"
  "recovery_threshold (feed m ts) = recovery_threshold m"
  "notifier (feed m ts) = notifier m"
  "domain (feed m ts) = domain m"
  by (induction ts rule: rev_induct) (simp_all add: feed_Nil feed_snoc handle_config)

lemma length_run: "length (run m ts) = length ts"
  by (induction ts arbitrary: m) simp_all

lemma run_nth:
  "k < length ts \<Longrightarrow> run m ts ! k = handle_check_result (feed m (take k ts)) (ts ! k)"
proof (induction ts arbitrary: m k)
  case Nil
  then show ?case by simp
next
  case (Cons t ts)
  show ?case
  proof (cases k)
    case 0
    then show ?thesis by (simp add: feed_Nil)
  next
    case (Suc j)
    with Cons.prems have "j < length ts" by simp
    from Cons.IH [OF this] Suc show ?thesis by (simp add: feed_Cons)
  qed
qed

lemma handle_failure:
  assumes "\<not> success (result t)"
  shows "handle_check_result m t =
     (if \<not> is_down m \<and> failure_threshold m \<le> consecutive_failures m + 1 then
        \<lparr> mon = m\<lparr> consecutive_successes := 0,
                     consecutive_failures := consecutive_failures m + 1,
                     is_down := True, downtime_start := Some (now t) \<rparr>,
          acts = [Log_check_failed (consecutive_failures m + 1) (failure_threshold m)
                    (error (result t)),
                  Log_service_down (error (result t))] @
                 (case notifier m of None \<Rightarrow> []
                  | Some n \<Rightarrow> [Call_send_alert (domain m) (status_code (result t))
                                 (error (result t)) (response_time (result t))]),
          raised = (case notifier m of None \<Rightarrow> None
                    | Some n \<Rightarrow> map_option Notifier_raised
                        (send_alert n (world t) (domain m) (status_code (result t))
                           (error (result t)) (response_time (result t)))) \<rparr>
      else
        \<lparr> mon = m\<lparr> consecutive_successes := 0,
                     consecutive_failures := consecutive_failures m + 1 \<rparr>,
          acts = [Log_check_failed (consecutive_failures m + 1) (failure_threshold m)
                    (error (result t))],
          raised = None \<rparr>)"
  using assms by (simp add: handle_check_result_def Let_def split: option.splits)

lemma feed_failures:
  assumes "\<forall>t\<in>set fs. \<not> success (result t)"
    and "\<not> is_down m" and "consecutive_failures m = 0" and "1 \<le> failure_threshold m"
  shows "consecutive_failures (feed m fs) = int (length fs) \<and>
         is_down (feed m fs) = (failure_threshold m \<le> int (length fs))"
  using assms(1)
proof (induction fs rule: rev_induct)
  case Nil
  with assms show ?case by (simp add: feed_Nil)
next
  case (snoc t fs)
  then have ih: "consecutive_failures (feed m fs) = int (length fs)"
      "is_down (feed m fs) = (failure_threshold m \<le> int (length fs))"
    and f: "\<not> success (result t)"
    by simp_all
  show ?case
    by (auto simp add: feed_snoc handle_failure [OF f] ih feed_config)
qed

lemma handle_success_failures:
  "success (result t) \<Longrightarrow> consecutive_failures (mon (handle_check_result m t)) = 0"
  by (simp add: handle_check_result_def reset_recovered_def Let_def split: option.splits)

lemma handle_failure_successes:
  "\<not> success (result t) \<Longrightarrow> consecutive_successes (mon (handle_check_result m t)) = 0"
  by (simp add: handle_check_result_def Let_def split: option.splits)

lemma failure_run_start:
  assumes "initial m0" and "pre = [] \<or> success (result (last pre))"
  shows "consecutive_failures (feed m0 pre) = 0"
proof (cases pre rule: rev_cases)
  case Nil
  with assms show ?thesis by (simp add: feed_Nil initial_def)
next
  case (snoc us u)
  with assms show ?thesis by (simp add: feed_snoc handle_success_failures)
qed

lemma card_single_index:
  "card {i. i < n \<and> int i + 1 = thr} = (if 1 \<le> thr \<and> thr \<le> int n then 1 else 0)"
proof (cases "1 \<le> thr \<and> thr \<le> int n")
  case True
  then have "{i. i < n \<and> int i + 1 = thr} = {nat (thr - 1)}" by auto
  with True show ?thesis by simp
next
  case False
  then have e: "{i. i < n \<and> int i + 1 = thr} = {}" by auto
  show ?thesis by (simp only: False if_False e card.empty)
qed

lemma failure_run_step:
  assumes fs: "\<forall>t\<in>set fs. \<not> success (result t)"
    and up: "\<not> is_down m" and c0: "consecutive_failures m = 0"
    and thr: "1 \<le> failure_threshold m" and k: "k < length fs"
  shows "run m fs ! k =
     (if int k + 1 = failure_threshold m then
        \<lparr> mon = (feed m (take k fs))\<lparr> consecutive_successes := 0,
                     consecutive_failures := int k + 1,
                     is_down := True, downtime_start := Some (now (fs ! k)) \<rparr>,
          acts = [Log_check_failed (int k + 1) (failure_threshold m)
                    (error (result (fs ! k))),
                  Log_service_down (error (result (fs ! k)))] @
                 (case notifier m of None \<Rightarrow> []
                  | Some n \<Rightarrow> [Call_send_alert (domain m) (status_code (result (fs ! k)))
                                 (error (result (fs ! k))) (response_time (result (fs ! k)))]),
          raised = (case notifier m of None \<Rightarrow> None
                    | Some n \<Rightarrow> map_option Notifier_raised
                        (send_alert n (world (fs ! k)) (domain m) (status_code (result (fs ! k)))
                           (error (result (fs ! k))) (response_time (result (fs ! k))))) \<rparr>
      else
        \<lparr> mon = (feed m (take k fs))\<lparr> consecutive_successes := 0,
                     consecutive_failures := int k + 1 \<rparr>,
          acts = [Log_check_failed (int k + 1) (failure_threshold m)
                    (error (result (fs ! k)))],
          raised = None \<rparr>) \<and>
     is_down (feed m (take k fs)) = (failure_threshold m \<le> int k)"
proof -
  have "\<forall>t\<in>set (take k fs). \<not> success (result t)"
    using fs by (meson in_set_takeD)
  from feed_failures [OF this up c0 thr] k
  have st: "consecutive_failures (feed m (take k fs)) = int k"
      "is_down (feed m (take k fs)) = (failure_threshold m \<le> int k)"
    by simp_all
  from fs k have f: "\<not> success (result (fs ! k))" by simp
  show ?thesis
    unfolding run_nth [OF k] handle_failure [OF f]
    by (auto simp add: st feed_config split: option.splits)
qed

lemma feed_downtime_iff:
  assumes "initial m0"
  shows "(downtime_start (feed m0 ts) \<noteq> None) = is_down (feed m0 ts)"
proof (induction ts rule: rev_induct)
  case Nil
  from assms show ?case by (simp add: feed_Nil initial_def)
next
  case (snoc t ts)
  have "(downtime_start (mon (handle_check_result (feed m0 ts) t)) \<noteq> None)
          = is_down (mon (handle_check_result (feed m0 ts) t))"
    using snoc.IH by (rule handle_downtime_iff)
  then show ?case by (simp only: feed_snoc)
qed

lemma filter_log_passed: "filter is_recovery_action (log_passed r) = []"
  by (simp add: log_passed_def)

lemma handle_recovery:
  assumes "success (result t)" and "is_down m"
    and "recovery_threshold m \<le> consecutive_successes m + 1"
    and "downtime_start m = Some t0"
    and "\<forall>n. notifier m = Some n \<longrightarrow>
           send_recovery n (world t) (domain m) (py_int (now t - t0)) = None"
  shows "handle_check_result m t =
     \<lparr> mon = m\<lparr> consecutive_failures := 0, consecutive_successes := 0,
                  is_down := False, downtime_start := None \<rparr>,
       acts = Log_recovered (py_int (now t - t0)) #
              (case notifier m of None \<Rightarrow> []
               | Some n \<Rightarrow> [Call_send_recovery (domain m) (py_int (now t - t0))]) @
              log_passed (result t),
       raised = None \<rparr>"
  using assms
  by (simp add: handle_check_result_def Let_def reset_recovered_def split: option.splits)

lemma handle_success_quiet:
  assumes "success (result t)"
    and "\<not> (is_down m \<and> recovery_threshold m \<le> consecutive_successes m + 1)"
  shows "handle_check_result m t =
     \<lparr> mon = m\<lparr> consecutive_failures := 0,
                  consecutive_successes := consecutive_successes m + 1 \<rparr>,
       acts = log_passed (result t), raised = None \<rparr>"
  using assms by (auto simp add: handle_check_result_def Let_def)

lemma feed_successes:
  assumes "\<forall>t\<in>set ss. success (result t)"
    and "\<forall>k<length ss. int k + 1 = recovery_threshold m \<longrightarrow>
           (\<forall>n. notifier m = Some n \<longrightarrow>
              send_recovery n (world (ss ! k)) (domain m) (py_int (now (ss ! k) - t0)) = None)"
    and "is_down m" and "consecutive_successes m = 0" and "downtime_start m = Some t0"
    and "1 \<le> recovery_threshold m"
  shows "is_down (feed m ss) = (int (length ss) < recovery_threshold m) \<and>
         consecutive_successes (feed m ss) =
           (if int (length ss) < recovery_threshold m then int (length ss)
            else int (length ss) - recovery_threshold m) \<and>
         downtime_start (feed m ss) =
           (if int (length ss) < recovery_threshold m then Some t0 else None)"
  using assms(1,2)
proof (induction ss rule: rev_induct)
  case Nil
  with assms show ?case by (simp add: feed_Nil)
next
  case (snoc t ss)
  let ?b = "feed m ss"
  have p1: "\<forall>t\<in>set ss. success (result t)"
    using snoc.prems(1) by simp
  have p2: "\<forall>k<length ss. int k + 1 = recovery_threshold m \<longrightarrow>
           (\<forall>n. notifier m = Some n \<longrightarrow>
              send_recovery n (world (ss ! k)) (domain m) (py_int (now (ss ! k) - t0)) = None)"
  proof (intro allI impI)
    fix k n
    assume k: "k < length ss" "int k + 1 = recovery_threshold m" "notifier m = Some n"
    then have "k < length (ss @ [t])" by simp
    from snoc.prems(2) [rule_format, OF this k(2,3)] k(1)
    show "send_recovery n (world (ss ! k)) (domain m) (py_int (now (ss ! k) - t0)) = None"
      by (simp add: nth_append)
  qed
  from snoc.IH [OF p1 p2]
  have ih: "is_down ?b = (int (length ss) < recovery_threshold m)"
      "consecutive_successes ?b =
         (if int (length ss) < recovery_threshold m then int (length ss)
          else int (length ss) - recovery_threshold m)"
      "downtime_start ?b = (if int (length ss) < recovery_threshold m then Some t0 else None)"
    by simp_all
  from snoc.prems(1) have s: "success (result t)" by simp
  show ?case
  proof (cases "int (length ss) + 1 = recovery_threshold m")
    case True
    then have st: "is_down ?b" "recovery_threshold ?b \<le> consecutive_successes ?b + 1"
        "downtime_start ?b = Some t0"
      by (simp_all add: ih feed_config)
    have q: "\<forall>n. notifier ?b = Some n \<longrightarrow>
        send_recovery n (world t) (domain ?b) (py_int (now t - t0)) = None"
    proof (intro allI impI)
      fix n assume "notifier ?b = Some n"
      then have n: "notifier m = Some n" by (simp add: feed_config)
      have "length ss < length (ss @ [t])" by simp
      from snoc.prems(2) [rule_format, OF this] True n
      show "send_recovery n (world t) (domain ?b) (py_int (now t - t0)) = None"
        by (simp add: feed_config)
    qed
    from handle_recovery [OF s st q] True show ?thesis
      by (simp add: feed_snoc)
  next
    case False
    then have "\<not> (is_down ?b \<and> recovery_threshold ?b \<le> consecutive_successes ?b + 1)"
      by (auto simp add: ih feed_config)
    from handle_success_quiet [OF s this] False show ?thesis
      by (auto simp add: feed_snoc ih)
  qed
qed

lemma success_run_step:
  assumes ss: "\<forall>t\<in>set ss. success (result t)"
    and q: "\<forall>k<length ss. int k + 1 = recovery_threshold m \<longrightarrow>
           (\<forall>n. notifier m = Some n \<longrightarrow>
              send_recovery n (world (ss ! k)) (domain m) (py_int (now (ss ! k) - t0)) = None)"
    and dn: "is_down m" and c0: "consecutive_successes m = 0"
    and ds: "downtime_start m = Some t0" and thr: "1 \<le> recovery_threshold m"
    and k: "k < length ss"
  shows "is_down (feed m (take k ss)) = (int k < recovery_threshold m) \<and>
     downtime_start (feed m (take k ss)) =
       (if int k < recovery_threshold m then Some t0 else None) \<and>
     run m ss ! k =
     (if int k + 1 = recovery_threshold m then
        \<lparr> mon = (feed m (take k ss))\<lparr> consecutive_failures := 0, consecutive_successes := 0,
                  is_down := False, downtime_start := None \<rparr>,
          acts = Log_recovered (py_int (now (ss ! k) - t0)) #
              (case notifier m of None \<Rightarrow> []
               | Some n \<Rightarrow> [Call_send_recovery (domain m) (py_int (now (ss ! k) - t0))]) @
              log_passed (result (ss ! k)),
          raised = None \<rparr>
      else
        \<lparr> mon = (feed m (take k ss))\<lparr> consecutive_failures := 0,
                  consecutive_successes := consecutive_successes (feed m (take k ss)) + 1 \<rparr>,
          acts = log_passed (result (ss ! k)), raised = None \<rparr>)"
proof -
  let ?b = "feed m (take k ss)"
  have a: "\<forall>t\<in>set (take k ss). success (result t)"
    using ss by (meson in_set_takeD)
  have b: "\<forall>j<length (take k ss). int j + 1 = recovery_threshold m \<longrightarrow>
           (\<forall>n. notifier m = Some n \<longrightarrow>
              send_recovery n (world (take k ss ! j)) (domain m)
                (py_int (now (take k ss ! j) - t0)) = None)"
    using q k by simp
  from feed_successes [OF a b dn c0 ds thr] k
  have st: "is_down ?b = (int k < recovery_threshold m)"
      "consecutive_successes ?b =
         (if int k < recovery_threshold m then int k else int k - recovery_threshold m)"
      "downtime_start ?b = (if int k < recovery_threshold m then Some t0 else None)"
    by simp_all
  from ss k have s: "success (result (ss ! k))" by simp
  show ?thesis
  proof (cases "int k + 1 = recovery_threshold m")
    case True
    then have c: "is_down ?b" "recovery_threshold ?b \<le> consecutive_successes ?b + 1"
        "downtime_start ?b = Some t0"
      by (simp_all add: st feed_config)
    from q k True have qk: "\<forall>n. notifier ?b = Some n \<longrightarrow>
        send_recovery n (world (ss ! k)) (domain ?b) (py_int (now (ss ! k) - t0)) = None"
      by (simp add: feed_config)
    from handle_recovery [OF s c qk] True st show ?thesis
      by (simp add: run_nth [OF k] feed_config cong: option.case_cong)
  next
    case False
    then have "\<not> (is_down ?b \<and> recovery_threshold ?b \<le> consecutive_successes ?b + 1)"
      by (auto simp add: st feed_config)
    from handle_success_quiet [OF s this] False st show ?thesis
      by (simp add: run_nth [OF k])
  qed
qed

lemma success_run_start:
  assumes "initial m0" and "pre = [] \<or> \<not> success (result (last pre))"
  shows "consecutive_successes (feed m0 pre) = 0"
proof (cases pre rule: rev_cases)
  case Nil
  with assms show ?thesis by (simp add: feed_Nil initial_def)
next
  case (snoc us u)
  with assms show ?thesis by (simp add: feed_snoc handle_failure_successes)
qed

lemma run_snoc_nth:
  "k < length ts \<Longrightarrow> run m (ts @ [t]) ! k = run m ts ! k"
  "run m (ts @ [t]) ! length ts = handle_check_result (feed m ts) t"
  by (simp_all add: run_nth nth_append)

lemma run_take_nth:
  "k < j \<Longrightarrow> j \<le> length ts \<Longrightarrow> run m (take j ts) ! k = run m ts ! k"
  by (simp add: run_nth min_def)

lemma handle_down_cases:
  assumes "is_down (mon (handle_check_result m t))"
  shows "(Log_service_down (error (result t)) \<in> set (acts (handle_check_result m t)) \<and>
          downtime_start (mon (handle_check_result m t)) = Some (now t)) \<or>
         (is_down m \<and> downtime_start (mon (handle_check_result m t)) = downtime_start m \<and>
          \<not> list_ex is_down_action (acts (handle_check_result m t)))"
  using assms
  by (auto simp add: handle_check_result_def Let_def reset_recovered_def log_passed_def
      list_ex_iff split: option.splits if_splits)

lemma handle_recovered_log:
  assumes "Log_recovered d \<in> set (acts (handle_check_result m t))"
  shows "is_down m \<and> (\<exists>t0. downtime_start m = Some t0 \<and> d = py_int (now t - t0)) \<and>
         (notifier m \<noteq> None \<longrightarrow>
            Call_send_recovery (domain m) d \<in> set (acts (handle_check_result m t)))"
  using assms
  by (auto simp add: handle_check_result_def Let_def log_passed_def
      split: option.splits if_splits)

lemma down_since:
  assumes "initial m0"
  shows "is_down (feed m0 ts) \<Longrightarrow>
         \<exists>i<length ts.
            Log_service_down (error (result (ts ! i))) \<in> set (acts (run m0 ts ! i)) \<and>
            (\<forall>k. i < k \<and> k < length ts \<longrightarrow> \<not> list_ex is_down_action (acts (run m0 ts ! k))) \<and>
            downtime_start (feed m0 ts) = Some (now (ts ! i))"
proof (induction ts rule: rev_induct)
  case Nil
  with assms show ?case by (simp add: feed_Nil initial_def)
next
  case (snoc t ts)
  let ?h = "handle_check_result (feed m0 ts) t"
  from snoc.prems have d: "is_down (mon ?h)" by (simp add: feed_snoc)
  from handle_down_cases [OF d] show ?case
  proof
    assume a: "Log_service_down (error (result t)) \<in> set (acts ?h) \<and>
               downtime_start (mon ?h) = Some (now t)"
    have "length ts < length (ts @ [t]) \<and>
            Log_service_down (error (result ((ts @ [t]) ! length ts)))
              \<in> set (acts (run m0 (ts @ [t]) ! length ts)) \<and>
            (\<forall>k. length ts < k \<and> k < length (ts @ [t]) \<longrightarrow>
               \<not> list_ex is_down_action (acts (run m0 (ts @ [t]) ! k))) \<and>
            downtime_start (feed m0 (ts @ [t])) = Some (now ((ts @ [t]) ! length ts))"
      using a by (auto simp add: run_snoc_nth feed_snoc)
    then show ?thesis by blast
  next
    assume b: "is_down (feed m0 ts) \<and> downtime_start (mon ?h) = downtime_start (feed m0 ts) \<and>
               \<not> list_ex is_down_action (acts ?h)"
    with snoc.IH obtain i where i: "i < length ts"
      and l: "Log_service_down (error (result (ts ! i))) \<in> set (acts (run m0 ts ! i))"
      and n: "\<forall>k. i < k \<and> k < length ts \<longrightarrow> \<not> list_ex is_down_action (acts (run m0 ts ! k))"
      and s: "downtime_start (feed m0 ts) = Some (now (ts ! i))"
      by blast
    have n': "\<not> list_ex is_down_action (acts (run m0 (ts @ [t]) ! k))"
      if "i < k" "k < length (ts @ [t])" for k
    proof (cases "k < length ts")
      case True
      with n that show ?thesis by (simp add: run_snoc_nth)
    next
      case False
      with that have "k = length ts" by simp
      with b show ?thesis by (simp add: run_snoc_nth)
    qed
    have "i < length (ts @ [t]) \<and>
            Log_service_down (error (result ((ts @ [t]) ! i)))
              \<in> set (acts (run m0 (ts @ [t]) ! i)) \<and>
            downtime_start (feed m0 (ts @ [t])) = Some (now ((ts @ [t]) ! i))"
      using i l s b by (simp add: run_snoc_nth feed_snoc nth_append)
    with n' show ?thesis by blast
  qed
qed

section \<open>The transitions when the notifier returns\<close>

text \<open>
  When the one call of \<open>send_recovery\<close> a run of successes makes (at its
  \<open>recovery_threshold\<close>-th check) returns, the RECOVERED transition fires at that check
  and at no other of the run.
\<close>

lemma recovered_once_when_send_recovery_returns:
  fixes m0 :: "'w ProxyMonitor"
  assumes "initial m0" and "1 \<le> recovery_threshold m0"
    and "is_down (feed m0 pre)"
    and "pre = [] \<or> \<not> success (result (last pre))"
    and "\<forall>t\<in>set ss. success (result t)"
    and "\<forall>k<length ss. int k + 1 = recovery_threshold m0 \<longrightarrow>
           (\<forall>n t0. notifier m0 = Some n \<longrightarrow> downtime_start (feed m0 pre) = Some t0 \<longrightarrow>
              send_recovery n (world (ss ! k)) (domain m0) (py_int (now (ss ! k) - t0)) = None)"
  shows "\<exists>t0. downtime_start (feed m0 pre) = Some t0 \<and>
         (\<forall>k<length ss.
            let before = feed (feed m0 pre) (take k ss);
                h = run (feed m0 pre) ss ! k;
                d = py_int (now (ss ! k) - t0)
            in if int k + 1 = recovery_threshold m0 then
                 is_down before \<and> \<not> is_down (mon h) \<and>
                 downtime_start (mon h) = None \<and>
                 consecutive_successes (mon h) = 0 \<and>
                 raised h = None \<and>
                 filter is_recovery_action (acts h) =
                   Log_recovered d #
                   (case notifier m0 of None \<Rightarrow> []
                    | Some n \<Rightarrow> [Call_send_recovery (domain m0) d])
               else
                 is_down (mon h) = is_down before \<and>
                 downtime_start (mon h) = downtime_start before \<and>
                 filter is_recovery_action (acts h) = []) \<and>
         length (filter (\<lambda>h. list_ex is_recovery_action (acts h)) (run (feed m0 pre) ss)) =
           (if recovery_threshold m0 \<le> int (length ss) then 1 else 0)"
proof -
  let ?m = "feed m0 pre"
  from feed_downtime_iff [OF assms(1), of pre] assms(3)
  obtain t0 where ds: "downtime_start ?m = Some t0" by auto
  have c0: "consecutive_successes ?m = 0"
    using assms(1,4) by (rule success_run_start)
  have thr: "1 \<le> recovery_threshold ?m"
    using assms(2) by (simp add: feed_config)
  have q: "\<forall>k<length ss. int k + 1 = recovery_threshold ?m \<longrightarrow>
           (\<forall>n. notifier ?m = Some n \<longrightarrow>
              send_recovery n (world (ss ! k)) (domain ?m) (py_int (now (ss ! k) - t0)) = None)"
    using assms(6) ds by (simp add: feed_config)
  note step = success_run_step [OF assms(5) q assms(3) c0 ds thr]
  have point: "\<forall>k<length ss.
            let before = feed ?m (take k ss);
                h = run ?m ss ! k;
                d = py_int (now (ss ! k) - t0)
            in if int k + 1 = recovery_threshold m0 then
                 is_down before \<and> \<not> is_down (mon h) \<and>
                 downtime_start (mon h) = None \<and>
                 consecutive_successes (mon h) = 0 \<and>
                 raised h = None \<and>
                 filter is_recovery_action (acts h) =
                   Log_recovered d #
                   (case notifier m0 of None \<Rightarrow> []
                    | Some n \<Rightarrow> [Call_send_recovery (domain m0) d])
               else
                 is_down (mon h) = is_down before \<and>
                 downtime_start (mon h) = downtime_start before \<and>
                 filter is_recovery_action (acts h) = []"
  proof (intro allI impI)
    fix k assume k: "k < length ss"
    from step [OF k] show "let before = feed ?m (take k ss);
                h = run ?m ss ! k;
                d = py_int (now (ss ! k) - t0)
            in if int k + 1 = recovery_threshold m0 then
                 is_down before \<and> \<not> is_down (mon h) \<and>
                 downtime_start (mon h) = None \<and>
                 consecutive_successes (mon h) = 0 \<and>
                 raised h = None \<and>
                 filter is_recovery_action (acts h) =
                   Log_recovered d #
                   (case notifier m0 of None \<Rightarrow> []
                    | Some n \<Rightarrow> [Call_send_recovery (domain m0) d])
               else
                 is_down (mon h) = is_down before \<and>
                 downtime_start (mon h) = downtime_start before \<and>
                 filter is_recovery_action (acts h) = []"
      by (auto simp add: Let_def feed_config filter_log_passed split: option.splits)
  qed
  have fired: "list_ex is_recovery_action (acts (run ?m ss ! k))
                 = (int k + 1 = recovery_threshold m0)"
    if "k < length ss" for k
    using step [OF that]
    by (auto simp add: feed_config log_passed_def list_ex_iff split: option.splits)
  have "length (filter (\<lambda>h. list_ex is_recovery_action (acts h)) (run ?m ss)) =
        card {i. i < length ss \<and> list_ex is_recovery_action (acts (run ?m ss ! i))}"
    by (simp add: length_filter_conv_card length_run)
  also have "{i. i < length ss \<and> list_ex is_recovery_action (acts (run ?m ss ! i))} =
        {i. i < length ss \<and> int i + 1 = recovery_threshold m0}"
    using fired by blast
  also have "card \<dots> = (if recovery_threshold m0 \<le> int (length ss) then 1 else 0)"
    using assms(2) by (simp add: card_single_index)
  finally show ?thesis using point ds by blast
qed

text \<open>
  The four state fields after a call do not depend on the notifier, as long as the call of
  \<open>send_recovery\<close>, where one is made, returns; and a \<open>TelegramNotifier\<close> whose transport
  fails with an \<open>Exception\<close> leaves the state a delivered message leaves.
\<close>

lemma state_fields_notifier_independent:
  fixes m :: "'w ProxyMonitor" and tm :: "telegram_world ProxyMonitor"
  shows
  "(notifier m = Some n \<and>
      (\<forall>t0. success (result t) \<and> is_down m \<and>
         recovery_threshold m \<le> consecutive_successes m + 1 \<and> downtime_start m = Some t0
         \<longrightarrow> send_recovery n (world t) (domain m) (py_int (now t - t0)) = None \<and>
             send_recovery n' (world t) (domain m) (py_int (now t - t0)) = None)
    \<longrightarrow> state_fields (mon (handle_check_result m t)) =
        state_fields (mon (handle_check_result (m\<lparr> notifier := Some n' \<rparr>) t))) \<and>
   (notifier tm = Some (telegram tn) \<and>
      (\<forall>u p e. post w u p = Some e \<longrightarrow> is_Exception e) \<and>
      (\<forall>u p. post w' u p = None)
    \<longrightarrow> raised (handle_check_result tm \<lparr> result = r, now = c, world = w \<rparr>) =
        raised (handle_check_result tm \<lparr> result = r, now = c, world = w' \<rparr>) \<and>
        state_fields (mon (handle_check_result tm \<lparr> result = r, now = c, world = w \<rparr>)) =
        state_fields (mon (handle_check_result tm \<lparr> result = r, now = c, world = w' \<rparr>)))"
proof (intro conjI impI)
  assume "notifier m = Some n \<and>
      (\<forall>t0. success (result t) \<and> is_down m \<and>
         recovery_threshold m \<le> consecutive_successes m + 1 \<and> downtime_start m = Some t0
         \<longrightarrow> send_recovery n (world t) (domain m) (py_int (now t - t0)) = None \<and>
             send_recovery n' (world t) (domain m) (py_int (now t - t0)) = None)"
  then show "state_fields (mon (handle_check_result m t)) =
        state_fields (mon (handle_check_result (m\<lparr> notifier := Some n' \<rparr>) t))"
    by (simp add: handle_check_result_def Let_def state_fields_def reset_recovered_def
        split: option.splits)
next
  assume a: "notifier tm = Some (telegram tn) \<and>
      (\<forall>u p e. post w u p = Some e \<longrightarrow> is_Exception e) \<and>
      (\<forall>u p. post w' u p = None)"
  have rec: "send_recovery (telegram tn) w dn d = None"
    "send_recovery (telegram tn) w' dn d = None" 
    "send_alert (telegram tn) w dn sc er rt = None"
    "send_alert (telegram tn) w' dn sc er rt = None" for dn d sc er rt
    using a by (simp_all add: telegram_returns)
  show "raised (handle_check_result tm \<lparr> result = r, now = c, world = w \<rparr>) =
        raised (handle_check_result tm \<lparr> result = r, now = c, world = w' \<rparr>)"
    using a by (simp add: handle_check_result_def Let_def rec
        split: option.splits)
  show "state_fields (mon (handle_check_result tm \<lparr> result = r, now = c, world = w \<rparr>)) =
        state_fields (mon (handle_check_result tm \<lparr> result = r, now = c, world = w' \<rparr>))"
    using a by (simp add: handle_check_result_def Let_def state_fields_def reset_recovered_def rec
        split: option.splits)
qed

section \<open>Claims\<close>

text \<open>
  C1. Take any sequence of calls from the initial state after which the monitor is up, and
  let a run of failed checks start there (the sequence is empty or ends with a successful
  check). With \<open>failure_threshold\<close> at least 1, the k-th failure of the run makes the DOWN
  transition exactly when k is \<open>failure_threshold\<close>: \<open>is_down\<close> goes from false to true,
  \<open>downtime_start\<close> becomes the clock reading of that call, the DOWN line is logged and,
  with a notifier, \<open>send_alert\<close> is called with the fields of that outcome. At every other
  failure of the run, the one before the threshold included, \<open>is_down\<close> and
  \<open>downtime_start\<close> stay as they are and nothing of the DOWN branch happens. So the
  transition fires once in a run of at least \<open>failure_threshold\<close> failures and not at all
  in a shorter one.
\<close>

theorem C1_down_once_per_failure_run:
  fixes m0 :: "'w ProxyMonitor"
  assumes "initial m0" and "1 \<le> failure_threshold m0"
    and "\<not> is_down (feed m0 pre)"
    and "pre = [] \<or> success (result (last pre))"
    and "\<forall>t\<in>set fs. \<not> success (result t)"
  shows "(\<forall>k<length fs.
            let before = feed (feed m0 pre) (take k fs);
                h = run (feed m0 pre) fs ! k;
                r = result (fs ! k)
            in if int k + 1 = failure_threshold m0 then
                 \<not> is_down before \<and> is_down (mon h) \<and>
                 downtime_start (mon h) = Some (now (fs ! k)) \<and>
                 filter is_down_action (acts h) =
                   Log_service_down (error r) #
                   (case notifier m0 of None \<Rightarrow> []
                    | Some n \<Rightarrow>
                        [Call_send_alert (domain m0) (status_code r) (error r)
                           (response_time r)])
               else
                 is_down (mon h) = is_down before \<and>
                 downtime_start (mon h) = downtime_start before \<and>
                 filter is_down_action (acts h) = []) \<and>
         length (filter (\<lambda>h. list_ex is_down_action (acts h)) (run (feed m0 pre) fs)) =
           (if failure_threshold m0 \<le> int (length fs) then 1 else 0)"
proof -
  let ?m = "feed m0 pre"
  have c0: "consecutive_failures ?m = 0"
    using assms(1,4) by (rule failure_run_start)
  have thr: "1 \<le> failure_threshold ?m"
    using assms(2) by (simp add: feed_config)
  note step = failure_run_step [OF assms(5) assms(3) c0 thr]
  have point: "\<forall>k<length fs.
            let before = feed ?m (take k fs);
                h = run ?m fs ! k;
                r = result (fs ! k)
            in if int k + 1 = failure_threshold m0 then
                 \<not> is_down before \<and> is_down (mon h) \<and>
                 downtime_start (mon h) = Some (now (fs ! k)) \<and>
                 filter is_down_action (acts h) =
                   Log_service_down (error r) #
                   (case notifier m0 of None \<Rightarrow> []
                    | Some n \<Rightarrow>
                        [Call_send_alert (domain m0) (status_code r) (error r)
                           (response_time r)])
               else
                 is_down (mon h) = is_down before \<and>
                 downtime_start (mon h) = downtime_start before \<and>
                 filter is_down_action (acts h) = []"
  proof (intro allI impI)
    fix k assume k: "k < length fs"
    from step [OF k] show "let before = feed ?m (take k fs);
                h = run ?m fs ! k;
                r = result (fs ! k)
            in if int k + 1 = failure_threshold m0 then
                 \<not> is_down before \<and> is_down (mon h) \<and>
                 downtime_start (mon h) = Some (now (fs ! k)) \<and>
                 filter is_down_action (acts h) =
                   Log_service_down (error r) #
                   (case notifier m0 of None \<Rightarrow> []
                    | Some n \<Rightarrow>
                        [Call_send_alert (domain m0) (status_code r) (error r)
                           (response_time r)])
               else
                 is_down (mon h) = is_down before \<and>
                 downtime_start (mon h) = downtime_start before \<and>
                 filter is_down_action (acts h) = []"
      by (auto simp add: Let_def feed_config split: option.splits)
  qed
  have fired: "list_ex is_down_action (acts (run ?m fs ! k)) = (int k + 1 = failure_threshold m0)"
    if "k < length fs" for k
    using step [OF that] by (auto simp add: feed_config split: option.splits)
  have "length (filter (\<lambda>h. list_ex is_down_action (acts h)) (run ?m fs)) =
        card {i. i < length fs \<and> list_ex is_down_action (acts (run ?m fs ! i))}"
    by (simp add: length_filter_conv_card length_run)
  also have "{i. i < length fs \<and> list_ex is_down_action (acts (run ?m fs ! i))} =
        {i. i < length fs \<and> int i + 1 = failure_threshold m0}"
    using fired by blast
  also have "card \<dots> = (if failure_threshold m0 \<le> int (length fs) then 1 else 0)"
    using assms(2) by (simp add: card_single_index)
  finally show ?thesis using point by blast
qed

theorem C1_down_once_per_failure_run_witness:
  "initial notified_monitor \<and> 1 \<le> failure_threshold notified_monitor \<and>
   \<not> is_down (feed notified_monitor healthy_start) \<and>
   (healthy_start = [] \<or> success (result (last healthy_start))) \<and>
   map (\<lambda>t. success (result t)) three_failures = [False, False, False] \<and>
   map (\<lambda>h. filter is_down_action (acts h))
     (run (feed notified_monitor healthy_start) three_failures) =
     [[],
      [Log_service_down (Some ''Bad status code: 502''),
       Call_send_alert ''proxy.example.org'' (Some 502) (Some ''Bad status code: 502'')
         (Some (1 / 2))],
      []] \<and>
   length (filter (\<lambda>h. list_ex is_down_action (acts h))
     (run (feed notified_monitor healthy_start) three_failures)) = 1"
proof -
  have h1: "initial notified_monitor"
    by (simp add: notified_monitor_def initial_init)
  have h2: "1 \<le> failure_threshold notified_monitor"
    by (simp add: run_simps)
  have h3: "\<not> is_down (feed notified_monitor healthy_start)"
    by (simp add: run_simps)
  have h4: "healthy_start = [] \<or> success (result (last healthy_start))"
    by (simp add: run_simps)
  have h5: "\<forall>t\<in>set three_failures. \<not> success (result t)"
    by (simp add: run_simps)
  have v: "map (\<lambda>h. filter is_down_action (acts h))
     (run (feed notified_monitor healthy_start) three_failures) =
     [[],
      [Log_service_down (Some ''Bad status code: 502''),
       Call_send_alert ''proxy.example.org'' (Some 502) (Some ''Bad status code: 502'')
         (Some (1 / 2))],
      []]"
    by (simp add: run_simps)
  have n: "failure_threshold notified_monitor \<le> int (length three_failures)"
    by (simp add: run_simps)
  from C1_down_once_per_failure_run [OF h1 h2 h3 h4 h5]
  have "length (filter (\<lambda>h. list_ex is_down_action (acts h))
     (run (feed notified_monitor healthy_start) three_failures)) =
     (if failure_threshold notified_monitor \<le> int (length three_failures) then 1 else 0)"
    by blast
  with n have "length (filter (\<lambda>h. list_ex is_down_action (acts h))
     (run (feed notified_monitor healthy_start) three_failures)) = 1"
    by (simp only: if_True)
  moreover have "map (\<lambda>t. success (result t)) three_failures = [False, False, False]"
    by (simp add: run_simps)
  ultimately show ?thesis using h1 h2 h3 h4 v by blast
qed

text \<open>
  C2. The RECOVERED transition is to fire exactly once in a run of at least
  \<open>recovery_threshold\<close> successes that starts while the monitor is down, clearing
  \<open>is_down\<close> and \<open>downtime_start\<close> and resetting \<open>consecutive_successes\<close>. The code
  calls \<open>send_recovery\<close> before it writes the state (lines 170-175), so with a notifier
  whose \<open>send_recovery\<close> raises it does not: after two failed checks, the second and the
  third successful check both log the recovery and call \<open>send_recovery\<close>, every one of
  the three leaves \<open>is_down\<close> true, and the monitor ends down with \<open>downtime_start\<close> set
  and \<open>consecutive_successes = 3\<close>. With a notifier that returns, the same checks make the
  transition once, at the second success. The DOWN branch writes the state before it calls
  the notifier, and fires once with the raising notifier too.
\<close>

theorem C2_recovered_repeats_when_send_recovery_raises:
  "map (\<lambda>h. filter is_recovery_action (acts h))
     (run (feed raising_monitor (take 2 (outage ()))) three_successes) =
     [[],
      [Log_recovered 600, Call_send_recovery ''proxy.example.org'' 600],
      [Log_recovered 900, Call_send_recovery ''proxy.example.org'' 900]] \<and>
   map (\<lambda>h. is_down (mon h))
     (run (feed raising_monitor (take 2 (outage ()))) three_successes) =
     [True, True, True] \<and>
   map raised (run (feed raising_monitor (take 2 (outage ()))) three_successes) =
     [None, Some (Notifier_raised boom), Some (Notifier_raised boom)] \<and>
   state_fields (feed raising_monitor (take 2 (outage ()) @ three_successes)) =
     (True, Some 1300, 0, 3) \<and>
   map (\<lambda>h. filter is_recovery_action (acts h))
     (run (feed notified_monitor (take 2 (outage ()))) three_successes) =
     [[], [Log_recovered 600, Call_send_recovery ''proxy.example.org'' 600], []] \<and>
   state_fields (feed notified_monitor (take 2 (outage ()) @ three_successes)) =
     (False, None, 0, 1) \<and>
   map (\<lambda>h. filter is_down_action (acts h)) (run raising_monitor three_failures) =
     [[],
      [Log_service_down (Some ''Bad status code: 502''),
       Call_send_alert ''proxy.example.org'' (Some 502) (Some ''Bad status code: 502'')
         (Some (1 / 2))],
      []]"
  by (simp add: run_simps)

text \<open>
  C3. Starting from the state \<open>__init__\<close> builds, after every sequence of calls of
  \<open>handle_check_result\<close> at most one of \<open>consecutive_failures\<close> and
  \<open>consecutive_successes\<close> is nonzero: a success leaves \<open>consecutive_failures = 0\<close> and a
  failure leaves \<open>consecutive_successes = 0\<close>.
\<close>

theorem C3_counters_exclusive:
  fixes m0 :: "'w ProxyMonitor"
  assumes "initial m0"
  shows "(consecutive_failures (feed m0 ts) = 0 \<or> consecutive_successes (feed m0 ts) = 0) \<and>
         (\<forall>(m :: 'w ProxyMonitor) t. success (result t) \<longrightarrow>
                  consecutive_failures (mon (handle_check_result m t)) = 0) \<and>
         (\<forall>(m :: 'w ProxyMonitor) t. \<not> success (result t) \<longrightarrow>
                  consecutive_successes (mon (handle_check_result m t)) = 0)"
proof -
  have inv: "consecutive_failures (feed m0 ts) = 0 \<or> consecutive_successes (feed m0 ts) = 0"
  proof (cases ts rule: rev_cases)
    case Nil
    with assms show ?thesis by (simp add: feed_Nil initial_def)
  next
    case (snoc us u)
    then show ?thesis by (simp add: feed_snoc handle_counters)
  qed
  have succ: "consecutive_failures (mon (handle_check_result m t)) = 0"
    if "success (result t)" for m :: "'w ProxyMonitor" and t
    using that
    by (simp add: handle_check_result_def reset_recovered_def Let_def split: option.splits)
  have fail: "consecutive_successes (mon (handle_check_result m t)) = 0"
    if "\<not> success (result t)" for m :: "'w ProxyMonitor" and t
    using that
    by (simp add: handle_check_result_def Let_def split: option.splits)
  from inv succ fail show ?thesis by blast
qed

theorem C3_counters_exclusive_witness:
  "initial plain_monitor \<and>
   consecutive_failures (feed plain_monitor (take 2 scenario)) = 2 \<and>
   consecutive_successes (feed plain_monitor (take 3 scenario)) = 1 \<and>
   (consecutive_failures (feed plain_monitor (take 3 scenario)) = 0 \<or>
    consecutive_successes (feed plain_monitor (take 3 scenario)) = 0)"
proof -
  have i: "initial plain_monitor"
    by (simp add: plain_monitor_def initial_init)
  have v: "consecutive_failures (feed plain_monitor (take 2 scenario)) = 2 \<and>
           consecutive_successes (feed plain_monitor (take 3 scenario)) = 1"
    by (simp add: run_simps)
  from C3_counters_exclusive [OF i, of "take 3 scenario"] i v show ?thesis
    by blast
qed

text \<open>
  C4. Starting from the state \<open>__init__\<close> builds, after every sequence of calls of
  \<open>handle_check_result\<close> the field \<open>downtime_start\<close> is set exactly when \<open>is_down\<close> is true.
\<close>

theorem C4_downtime_start_iff_down:
  assumes "initial m0"
  shows "(downtime_start (feed m0 ts) \<noteq> None) = is_down (feed m0 ts)"
  using assms by (rule feed_downtime_iff)

theorem C4_downtime_start_iff_down_witness:
  "initial plain_monitor \<and>
   is_down (feed plain_monitor (take 2 scenario)) \<and>
   downtime_start (feed plain_monitor (take 2 scenario)) = Some 1300 \<and>
   \<not> is_down (feed plain_monitor scenario) \<and>
   (downtime_start (feed plain_monitor scenario) \<noteq> None)
     = is_down (feed plain_monitor scenario)"
proof -
  have i: "initial plain_monitor"
    by (simp add: plain_monitor_def initial_init)
  have v: "is_down (feed plain_monitor (take 2 scenario)) \<and>
           downtime_start (feed plain_monitor (take 2 scenario)) = Some 1300 \<and>
           \<not> is_down (feed plain_monitor scenario)"
    by (simp add: run_simps)
  from C4_downtime_start_iff_down [OF i, of scenario] i v show ?thesis
    by blast
qed

text \<open>
  C5. Whenever a call from the initial state reports a recovery with the duration \<open>d\<close>,
  an earlier call made the DOWN transition, no call between the two made one,
  \<open>downtime_start\<close> still holds the clock reading of that earlier call, and \<open>d\<close> is
  \<open>int\<close> of the reading of the recovering call minus the reading of the call that went
  down: the time since the check that crossed the failure threshold, not since the first
  failed check, cut to whole seconds. The same \<open>d\<close> is what \<open>send_recovery\<close> receives.
\<close>

theorem C5_downtime_duration:
  fixes m0 :: "'w ProxyMonitor"
  assumes "initial m0" and "j < length ts"
    and "Log_recovered d \<in> set (acts (run m0 ts ! j))"
  shows "\<exists>i<j. Log_service_down (error (result (ts ! i))) \<in> set (acts (run m0 ts ! i)) \<and>
           (\<forall>k. i < k \<and> k < j \<longrightarrow> \<not> list_ex is_down_action (acts (run m0 ts ! k))) \<and>
           downtime_start (feed m0 (take j ts)) = Some (now (ts ! i)) \<and>
           d = py_int (now (ts ! j) - now (ts ! i)) \<and>
           (notifier m0 \<noteq> None \<longrightarrow>
              Call_send_recovery (domain m0) d \<in> set (acts (run m0 ts ! j)))"
proof -
  let ?b = "feed m0 (take j ts)"
  from assms(3) have "Log_recovered d \<in> set (acts (handle_check_result ?b (ts ! j)))"
    by (simp add: run_nth [OF assms(2)])
  from handle_recovered_log [OF this]
  obtain t0 where dn: "is_down ?b" and ds: "downtime_start ?b = Some t0"
    and d: "d = py_int (now (ts ! j) - t0)"
    and c: "notifier m0 \<noteq> None \<longrightarrow> Call_send_recovery (domain m0) d \<in> set (acts (run m0 ts ! j))"
    by (auto simp add: feed_config run_nth [OF assms(2)])
  from down_since [OF assms(1) dn] assms(2)
  obtain i where i: "i < j"
    and l: "Log_service_down (error (result (take j ts ! i)))
              \<in> set (acts (run m0 (take j ts) ! i))"
    and n: "\<forall>k. i < k \<and> k < j \<longrightarrow> \<not> list_ex is_down_action (acts (run m0 (take j ts) ! k))"
    and s: "downtime_start ?b = Some (now (take j ts ! i))"
    by auto
  from i assms(2) have e: "take j ts ! i = ts ! i" by simp
  from i assms(2) l have l': "Log_service_down (error (result (ts ! i)))
      \<in> set (acts (run m0 ts ! i))"
    by (simp add: run_take_nth)
  from assms(2) n have n': "\<forall>k. i < k \<and> k < j \<longrightarrow>
      \<not> list_ex is_down_action (acts (run m0 ts ! k))"
    by (simp add: run_take_nth)
  from s e ds d have "downtime_start ?b = Some (now (ts ! i))"
      "d = py_int (now (ts ! j) - now (ts ! i))"
    by simp_all
  with i l' n' c show ?thesis by blast
qed

theorem C5_downtime_duration_witness:
  "initial plain_monitor \<and> 6 < length scenario \<and>
   Log_recovered 1500 \<in> set (acts (run plain_monitor scenario ! 6)) \<and>
   (\<exists>i<6. Log_service_down (error (result (scenario ! i)))
             \<in> set (acts (run plain_monitor scenario ! i)) \<and>
           1500 = py_int (now (scenario ! 6) - now (scenario ! i))) \<and>
   Log_service_down (Some ''Bad status code: 502'')
     \<in> set (acts (run plain_monitor scenario ! 1)) \<and>
   py_int (now (scenario ! 6) - now (scenario ! 1)) = 1500 \<and>
   py_int (now (scenario ! 6) - now (scenario ! 0)) = 1800"
proof -
  have h1: "initial plain_monitor"
    by (simp add: plain_monitor_def initial_init)
  have h2: "6 < length scenario"
    by (simp add: scenario_def)
  have h3: "Log_recovered 1500 \<in> set (acts (run plain_monitor scenario ! 6))"
    by (simp add: run_simps)
  have v: "Log_service_down (Some ''Bad status code: 502'')
     \<in> set (acts (run plain_monitor scenario ! 1)) \<and>
   py_int (now (scenario ! 6) - now (scenario ! 1)) = 1500 \<and>
   py_int (now (scenario ! 6) - now (scenario ! 0)) = 1800"
    by (simp add: run_simps)
  from C5_downtime_duration [OF h1 h2 h3]
  have "\<exists>i<6. Log_service_down (error (result (scenario ! i)))
             \<in> set (acts (run plain_monitor scenario ! i)) \<and>
           1500 = py_int (now (scenario ! 6) - now (scenario ! i))"
    by blast
  with h1 h2 h3 v show ?thesis by blast
qed

text \<open>
  C6. Every outcome \<open>check_health\<close> returns has \<open>success\<close> true exactly when
  \<open>status_code\<close> is 200 and no error is recorded. When the request returns a response whose
  status is not 200, the outcome carries that status, \<open>success\<close> is false and \<open>error\<close> is
  \<open>Bad status code: \<close> followed by the status in decimal.
\<close>

theorem C6_success_iff_200:
  assumes "check_health self env = Inr out"
  shows "(success out \<longleftrightarrow> status_code out = Some 200 \<and> error out = None) \<and>
         (\<forall>code. http_get env = Response code \<and> code \<noteq> 200 \<longrightarrow>
            status_code out = Some code \<and> \<not> success out \<and>
            error out = Some (''Bad status code: '' @ py_str_int code))"
  using assms
  by (auto simp add: check_health_def Let_def split: get_result.splits if_splits)

theorem C6_success_iff_200_witness:
  "check_health plain_monitor env503 =
     Inr \<lparr> success = False, status_code = Some 503, response_time = Some (3 / 4),
           error = Some ''Bad status code: 503'',
           timestamp = ''2024-05-01T12:00:00.000000'' \<rparr> \<and>
   (\<exists>out. check_health plain_monitor env200 = Inr out \<and> success out \<and>
      status_code out = Some 200 \<and> error out = None)"
proof -
  have a: "check_health plain_monitor env503 =
     Inr \<lparr> success = False, status_code = Some 503, response_time = Some (3 / 4),
           error = Some ''Bad status code: 503'',
           timestamp = ''2024-05-01T12:00:00.000000'' \<rparr>"
    by (simp add: check_health_def env503_def py_str_int_def str_nat.simps digit_def)
  obtain out where b: "check_health plain_monitor env200 = Inr out" and c: "success out"
    by (simp add: check_health_def env200_def)
  from C6_success_iff_200 [OF b] c have "status_code out = Some 200 \<and> error out = None"
    by blast
  with a b c show ?thesis by blast
qed

text \<open>
  C7. \<open>check_health\<close> returns an outcome whenever the request returns a response or raises
  an exception one of its \<open>except\<close> clauses matches (a TLS error, a timeout, a connection
  error, or any other \<open>Exception\<close>). A raise is classified by the first clause that
  matches, in the order TLS, timeout, connection, other, and the error message starts with
  \<open>SSL Error:\<close>, \<open>Timeout after\<close>, \<open>Connection error:\<close> or \<open>Unexpected error:\<close>
  accordingly; a message starts with exactly one of the four.
\<close>

theorem C7_check_health_never_throws:
  fixes self :: "'w ProxyMonitor"
  assumes "case http_get env of
             Response code \<Rightarrow> True
           | Raises e \<Rightarrow> is_SSLError e \<or> is_Timeout e \<or> is_ConnectionError e \<or> is_Exception e"
  shows "\<exists>out. check_health self env = Inr out \<and>
           (\<forall>e. http_get env = Raises e \<longrightarrow>
              \<not> success out \<and>
              (\<exists>msg. error out = Some msg \<and>
                 (is_SSLError e \<longrightarrow> prefix ''SSL Error:'' msg) \<and>
                 (\<not> is_SSLError e \<and> is_Timeout e \<longrightarrow> prefix ''Timeout after'' msg) \<and>
                 (\<not> is_SSLError e \<and> \<not> is_Timeout e \<and> is_ConnectionError e \<longrightarrow>
                    prefix ''Connection error:'' msg) \<and>
                 (\<not> is_SSLError e \<and> \<not> is_Timeout e \<and> \<not> is_ConnectionError e \<longrightarrow>
                    prefix ''Unexpected error:'' msg) \<and>
                 length (filter (\<lambda>p. prefix p msg)
                   [''SSL Error:'', ''Timeout after'', ''Connection error:'',
                    ''Unexpected error:'']) = 1))"
proof (cases "http_get env")
  case (Response code)
  then show ?thesis by (simp add: check_health_def Let_def)
next
  case (Raises e)
  with assms have caught:
    "is_SSLError e \<or> is_Timeout e \<or> is_ConnectionError e \<or> is_Exception e"
    by simp
  show ?thesis
  proof (cases "is_SSLError e")
    case True
    with Raises show ?thesis by (simp add: check_health_def)
  next
    case ssl: False
    show ?thesis
    proof (cases "is_Timeout e")
      case True
      with Raises ssl show ?thesis by (simp add: check_health_def)
    next
      case tmo: False
      show ?thesis
      proof (cases "is_ConnectionError e")
        case True
        with Raises ssl tmo show ?thesis by (simp add: check_health_def)
      next
        case False
        with Raises ssl tmo caught show ?thesis by (simp add: check_health_def)
      qed
    qed
  qed
qed

theorem C7_check_health_never_throws_witness:
  "(case http_get env_timeout of
      Response code \<Rightarrow> True
    | Raises e \<Rightarrow> is_SSLError e \<or> is_Timeout e \<or> is_ConnectionError e \<or> is_Exception e) \<and>
   (\<exists>out. check_health plain_monitor env_timeout = Inr out \<and> \<not> success out \<and>
      error out = Some ''Timeout after 15s'' \<and>
      (\<exists>msg. error out = Some msg \<and> prefix ''Timeout after'' msg))"
proof -
  have h: "case http_get env_timeout of
             Response code \<Rightarrow> True
           | Raises e \<Rightarrow> is_SSLError e \<or> is_Timeout e \<or> is_ConnectionError e \<or> is_Exception e"
    by (simp add: env_timeout_def connect_timeout_def)
  have g: "http_get env_timeout = Raises connect_timeout"
    by (simp add: env_timeout_def)
  have f: "\<not> is_SSLError connect_timeout \<and> is_Timeout connect_timeout"
    by (simp add: connect_timeout_def)
  have v: "check_health plain_monitor env_timeout =
     Inr \<lparr> success = False, status_code = None, response_time = None,
           error = Some ''Timeout after 15s'',
           timestamp = ''2024-05-01T12:10:00.000000'' \<rparr>"
    by (simp add: check_health_def env_timeout_def connect_timeout_def py_str_int_def
        str_nat.simps digit_def plain_monitor_def ProxyMonitor_init_def)
  from C7_check_health_never_throws [OF h, of plain_monitor] g f
  obtain out msg where
    "check_health plain_monitor env_timeout = Inr out" "\<not> success out"
    "error out = Some msg" "prefix ''Timeout after'' msg"
    by blast
  with h v show ?thesis by auto
qed

text \<open>
  C8. A notifier that raises or returns failure is to leave \<open>is_down\<close>, the two counters
  and \<open>downtime_start\<close> as a notifier whose send succeeded leaves them. The code keeps to
  this on the DOWN transition, where the state is written before \<open>send_alert\<close> is called,
  and for \<open>TelegramNotifier\<close>, whose \<open>send_message\<close> turns every \<open>Exception\<close> of the
  transport into the result \<open>False\<close>. It does not on the RECOVERED transition, where
  \<open>send_recovery\<close> is called before the reset (lines 170-175): after two failed and two
  successful checks the monitor whose notifier raises is still down, with \<open>downtime_start\<close>
  set and \<open>consecutive_successes = 2\<close>, where the monitor whose notifier returns is up
  again with both cleared.
\<close>

theorem C8_raising_send_recovery_skips_reset:
  "send_recovery raising_notifier () ''proxy.example.org'' 600 = Some boom \<and>
   state_fields (feed raising_monitor (outage ())) = (True, Some 1300, 0, 2) \<and>
   state_fields (feed notified_monitor (outage ())) = (False, None, 0, 0) \<and>
   send_alert raising_notifier () ''proxy.example.org'' (Some 502)
     (Some ''Bad status code: 502'') (Some (1 / 2)) = Some boom \<and>
   state_fields (feed raising_monitor (take 2 (outage ()))) = (True, Some 1300, 2, 0) \<and>
   state_fields (feed notified_monitor (take 2 (outage ()))) = (True, Some 1300, 2, 0) \<and>
   state_fields (feed telegram_monitor (outage unreachable)) = (False, None, 0, 0) \<and>
   state_fields (feed telegram_monitor (outage delivering)) = (False, None, 0, 0)"
  by (simp add: run_simps)

text \<open>
  C9 as stated fails on an outcome \<open>check_health\<close> itself can return: when the two clock
  readings around the request coincide, the outcome has the response time 0, and the alert
  has no response-time line; it is the message of an outcome without a response time.
\<close>

theorem C9_alert_message_fields_counterexample:
  "check_health plain_monitor env_instant = Inr instant_outcome \<and>
   response_time instant_outcome = Some 0 \<and>
   \<not> sublist label_response_time
       (alert_message delivering ''proxy.example.org'' (status_code instant_outcome)
          (error instant_outcome) (response_time instant_outcome)) \<and>
   alert_message delivering ''proxy.example.org'' (status_code instant_outcome)
          (error instant_outcome) (response_time instant_outcome) =
   alert_message delivering ''proxy.example.org'' (status_code instant_outcome)
          (error instant_outcome) None"
proof -
  have a: "check_health plain_monitor env_instant = Inr instant_outcome"
    by (simp add: check_health_def env_instant_def instant_outcome_def py_str_int_def
        str_nat.simps digit_def)
  have m: "alert_message delivering ''proxy.example.org'' (status_code instant_outcome)
          (error instant_outcome) (response_time instant_outcome) =
      alert_header @ label_domain @ ''proxy.example.org'' @ [CHR 0x0A] @ label_time @
      ''2024-05-01 12:05:00'' @ [CHR 0x0A] @ label_status @ ''503'' @ [CHR 0x0A] @
      label_error @ ''Bad status code: 503'' @ [CHR 0x0A] @ alert_footer"
    by (simp add: alert_message_def instant_outcome_def truthy_int_def truthy_float_def
        truthy_str_def delivering_def py_str_int_def str_nat.simps digit_def)
  have n: "\<not> sublist label_response_time
      (alert_header @ label_domain @ ''proxy.example.org'' @ [CHR 0x0A] @ label_time @
      ''2024-05-01 12:05:00'' @ [CHR 0x0A] @ label_status @ ''503'' @ [CHR 0x0A] @
      label_error @ ''Bad status code: 503'' @ [CHR 0x0A] @ alert_footer)"
    by code_simp
  have e: "alert_message delivering ''proxy.example.org'' (status_code instant_outcome)
          (error instant_outcome) (response_time instant_outcome) =
   alert_message delivering ''proxy.example.org'' (status_code instant_outcome)
          (error instant_outcome) None"
    by (simp add: alert_message_def instant_outcome_def truthy_float_def)
  from a m n e show ?thesis by (simp add: instant_outcome_def)
qed

text \<open>
  C9 (as amended). The message \<open>send_alert\<close> passes to \<open>send_message\<close> contains the
  domain line and the time line, the status line whenever the status code is present and not
  zero, the response-time line whenever the response time is present and not zero, and the
  error line whenever the error is present and not empty. A status code of zero, a response
  time of zero and an empty error give the message that an absent field gives.
\<close>

theorem C9_alert_message_fields:
  "sublist (label_domain @ dname @ [CHR 0x0A]) (alert_message w dname sc err rt) \<and>
   sublist (label_time @ strftime_now w @ [CHR 0x0A]) (alert_message w dname sc err rt) \<and>
   (sc = Some c \<and> c \<noteq> 0 \<longrightarrow>
      sublist (label_status @ py_str_int c @ [CHR 0x0A]) (alert_message w dname sc err rt)) \<and>
   (rt = Some r \<and> r \<noteq> 0 \<longrightarrow>
      sublist (label_response_time @ format_2f r @ ''s'' @ [CHR 0x0A])
        (alert_message w dname sc err rt)) \<and>
   (err = Some e \<and> e \<noteq> [] \<longrightarrow>
      sublist (label_error @ e @ [CHR 0x0A]) (alert_message w dname sc err rt)) \<and>
   alert_message w dname (Some 0) err rt = alert_message w dname None err rt \<and>
   alert_message w dname sc (Some []) rt = alert_message w dname sc None rt \<and>
   alert_message w dname sc err (Some 0) = alert_message w dname sc err None"
proof (intro conjI impI)
  show "sublist (label_domain @ dname @ [CHR 0x0A]) (alert_message w dname sc err rt)"
    by (rule sublist_between [where ps = alert_header]) (simp add: alert_message_def)
  show "sublist (label_time @ strftime_now w @ [CHR 0x0A]) (alert_message w dname sc err rt)"
    by (rule sublist_between [where ps = "alert_header @ label_domain @ dname @ [CHR 0x0A]"])
      (simp add: alert_message_def)
next
  assume "sc = Some c \<and> c \<noteq> 0"
  then show "sublist (label_status @ py_str_int c @ [CHR 0x0A])
      (alert_message w dname sc err rt)"
    by (intro sublist_between [where ps = "alert_header @ label_domain @ dname @ [CHR 0x0A] @
          label_time @ strftime_now w @ [CHR 0x0A]"])
      (simp add: alert_message_def truthy_int_def)
next
  assume "rt = Some r \<and> r \<noteq> 0"
  then show "sublist (label_response_time @ format_2f r @ ''s'' @ [CHR 0x0A])
      (alert_message w dname sc err rt)"
    by (intro sublist_between [where ps = "alert_header @ label_domain @ dname @ [CHR 0x0A] @
          label_time @ strftime_now w @ [CHR 0x0A] @
          (if truthy_int sc then label_status @ py_str_int (the sc) @ [CHR 0x0A] else [])"])
      (simp add: alert_message_def truthy_float_def)
next
  assume "err = Some e \<and> e \<noteq> []"
  then show "sublist (label_error @ e @ [CHR 0x0A]) (alert_message w dname sc err rt)"
    by (intro sublist_between [where ss = alert_footer and ps = "alert_header @ label_domain @ dname @ [CHR 0x0A] @
          label_time @ strftime_now w @ [CHR 0x0A] @
          (if truthy_int sc then label_status @ py_str_int (the sc) @ [CHR 0x0A] else []) @
          (if truthy_float rt then label_response_time @ format_2f (the rt) @ ''s'' @ [CHR 0x0A]
           else [])"])
      (simp add: alert_message_def truthy_str_def)
qed (simp_all add: alert_message_def truthy_int_def truthy_float_def truthy_str_def)

theorem C9_alert_message_fields_witness:
  "sublist (label_domain @ ''proxy.example.org'' @ [CHR 0x0A])
     (alert_message delivering ''proxy.example.org'' (Some 503) (Some ''Bad status code: 503'')
        (Some (3 / 4))) \<and>
   sublist (label_status @ ''503'' @ [CHR 0x0A])
     (alert_message delivering ''proxy.example.org'' (Some 503) (Some ''Bad status code: 503'')
        (Some (3 / 4))) \<and>
   sublist (label_response_time @ ''0.75s'' @ [CHR 0x0A])
     (alert_message delivering ''proxy.example.org'' (Some 503) (Some ''Bad status code: 503'')
        (Some (3 / 4))) \<and>
   sublist (label_error @ ''Bad status code: 503'' @ [CHR 0x0A])
     (alert_message delivering ''proxy.example.org'' (Some 503) (Some ''Bad status code: 503'')
        (Some (3 / 4)))"
proof -
  have s: "py_str_int 503 = ''503''"
    by (simp add: py_str_int_def str_nat.simps digit_def)
  have f: "format_2f (3 / 4) = ''0.75''"
    by (simp add: format_2f_def round_half_even_def str_nat.simps digit_def)
  from C9_alert_message_fields [where dname = "''proxy.example.org''" and w = delivering and sc = "Some 503"
      and err = "Some ''Bad status code: 503''" and rt = "Some (3 / 4)" and c = 503
      and r = "3 / 4" and e = "''Bad status code: 503''"] s f
  show ?thesis by simp
qed

text \<open>
  C10. On the DOWN transition the state is written before the notifier is called: when
  \<open>send_alert\<close> raises, the exception leaves \<open>handle_check_result\<close> with \<open>is_down\<close>
  true and \<open>downtime_start\<close> set to the current reading. On the RECOVERED transition the
  notifier is called before the reset: when \<open>send_recovery\<close> raises, \<open>is_down\<close> stays
  true, \<open>downtime_start\<close> keeps its value, \<open>consecutive_successes\<close> keeps the value it
  was just incremented to, and every following successful check calls \<open>send_recovery\<close>
  again.
\<close>

theorem C10_notifier_order:
  fixes m :: "'w ProxyMonitor"
  shows
  "(\<not> success (result t) \<and> \<not> is_down m \<and>
      failure_threshold m \<le> consecutive_failures m + 1 \<and> notifier m = Some n \<and>
      send_alert n (world t) (domain m) (status_code (result t)) (error (result t))
        (response_time (result t)) = Some e
    \<longrightarrow> raised (handle_check_result m t) = Some (Notifier_raised e) \<and>
        is_down (mon (handle_check_result m t)) \<and>
        downtime_start (mon (handle_check_result m t)) = Some (now t)) \<and>
   (success (result t) \<and> is_down m \<and>
      recovery_threshold m \<le> consecutive_successes m + 1 \<and> downtime_start m = Some t0 \<and>
      notifier m = Some n \<and>
      send_recovery n (world t) (domain m) (py_int (now t - t0)) = Some e
    \<longrightarrow> raised (handle_check_result m t) = Some (Notifier_raised e) \<and>
        is_down (mon (handle_check_result m t)) \<and>
        downtime_start (mon (handle_check_result m t)) = Some t0 \<and>
        consecutive_successes (mon (handle_check_result m t)) = consecutive_successes m + 1 \<and>
        (\<forall>t'. success (result t') \<longrightarrow>
           Call_send_recovery (domain m) (py_int (now t' - t0))
             \<in> set (acts (handle_check_result (mon (handle_check_result m t)) t'))))"
proof (intro conjI impI)
  assume a: "\<not> success (result t) \<and> \<not> is_down m \<and>
      failure_threshold m \<le> consecutive_failures m + 1 \<and> notifier m = Some n \<and>
      send_alert n (world t) (domain m) (status_code (result t)) (error (result t))
        (response_time (result t)) = Some e"
  then show "raised (handle_check_result m t) = Some (Notifier_raised e)"
    and "is_down (mon (handle_check_result m t))"
    and "downtime_start (mon (handle_check_result m t)) = Some (now t)"
    by (simp_all add: handle_check_result_def Let_def)
next
  assume a: "success (result t) \<and> is_down m \<and>
      recovery_threshold m \<le> consecutive_successes m + 1 \<and> downtime_start m = Some t0 \<and>
      notifier m = Some n \<and>
      send_recovery n (world t) (domain m) (py_int (now t - t0)) = Some e"
  then have h: "handle_check_result m t =
      \<lparr> mon = m\<lparr> consecutive_failures := 0,
                   consecutive_successes := consecutive_successes m + 1 \<rparr>,
        acts = [Log_recovered (py_int (now t - t0)),
                Call_send_recovery (domain m) (py_int (now t - t0))],
        raised = Some (Notifier_raised e) \<rparr>"
    by (simp add: handle_check_result_def Let_def)
  show "raised (handle_check_result m t) = Some (Notifier_raised e)"
    and "is_down (mon (handle_check_result m t))"
    and "downtime_start (mon (handle_check_result m t)) = Some t0"
    and "consecutive_successes (mon (handle_check_result m t)) = consecutive_successes m + 1"
    using a by (simp_all add: h)
  show "\<forall>t'. success (result t') \<longrightarrow>
           Call_send_recovery (domain m) (py_int (now t' - t0))
             \<in> set (acts (handle_check_result (mon (handle_check_result m t)) t'))"
    using a by (simp add: h handle_check_result_def Let_def split: option.splits)
qed

theorem C10_notifier_order_witness:
  "raised (handle_check_result
      (feed (ProxyMonitor_init ''proxy.example.org'' (Some raising_notifier))
         (take 1 (outage ())))
      (tick_at bad_outcome 1300 ())) = Some (Notifier_raised boom) \<and>
   state_fields (feed (ProxyMonitor_init ''proxy.example.org'' (Some raising_notifier))
      (take 2 (outage ()))) = (True, Some 1300, 2, 0) \<and>
   raised (handle_check_result
      (feed (ProxyMonitor_init ''proxy.example.org'' (Some raising_notifier))
         (take 3 (outage ())))
      (tick_at ok_outcome 1900 ())) = Some (Notifier_raised boom) \<and>
   state_fields (feed (ProxyMonitor_init ''proxy.example.org'' (Some raising_notifier))
      (outage ())) = (True, Some 1300, 0, 2) \<and>
   Call_send_recovery ''proxy.example.org'' 900
     \<in> set (acts (handle_check_result
          (mon (handle_check_result
             (feed (ProxyMonitor_init ''proxy.example.org'' (Some raising_notifier))
                (take 3 (outage ())))
             (tick_at ok_outcome 1900 ())))
          (tick_at ok_outcome 2200 ())))"
proof -
  let ?m0 = "ProxyMonitor_init ''proxy.example.org'' (Some raising_notifier)"
  let ?m1 = "feed ?m0 (take 1 (outage ()))"
  let ?t1 = "tick_at bad_outcome 1300 ()"
  let ?m3 = "feed ?m0 (take 3 (outage ()))"
  let ?t3 = "tick_at ok_outcome 1900 ()"
  let ?t4 = "tick_at ok_outcome 2200 ()"
  have h1: "\<not> success (result ?t1) \<and> \<not> is_down ?m1 \<and>
      failure_threshold ?m1 \<le> consecutive_failures ?m1 + 1 \<and>
      notifier ?m1 = Some raising_notifier \<and>
      send_alert raising_notifier (world ?t1) (domain ?m1) (status_code (result ?t1))
        (error (result ?t1)) (response_time (result ?t1)) = Some boom"
    by (simp add: run_simps)
  have h3: "success (result ?t3) \<and> is_down ?m3 \<and>
      recovery_threshold ?m3 \<le> consecutive_successes ?m3 + 1 \<and>
      downtime_start ?m3 = Some 1300 \<and> notifier ?m3 = Some raising_notifier \<and>
      send_recovery raising_notifier (world ?t3) (domain ?m3) (py_int (now ?t3 - 1300))
        = Some boom"
    by (simp add: run_simps)
  have sf: "state_fields (feed ?m0 (take 2 (outage ()))) = (True, Some 1300, 2, 0) \<and>
            state_fields (feed ?m0 (outage ())) = (True, Some 1300, 0, 2)"
    by (simp add: run_simps)
  have d: "domain ?m3 = ''proxy.example.org''"
    by (simp add: run_simps)
  have s: "success (result ?t4)"
    by (simp add: tick_at_def ok_outcome_def)
  have p: "py_int (now ?t4 - 1300) = 900"
    by (simp add: tick_at_def py_int_def)
  from C10_notifier_order [of ?t1 ?m1 raising_notifier boom] h1
  have c1: "raised (handle_check_result ?m1 ?t1) = Some (Notifier_raised boom)"
    by blast
  from C10_notifier_order [of ?t3 ?m3 raising_notifier boom 1300] h3
  have c3: "raised (handle_check_result ?m3 ?t3) = Some (Notifier_raised boom) \<and>
      (\<forall>t'. success (result t') \<longrightarrow>
           Call_send_recovery (domain ?m3) (py_int (now t' - 1300))
             \<in> set (acts (handle_check_result (mon (handle_check_result ?m3 ?t3)) t')))"
    by blast
  with s have "Call_send_recovery (domain ?m3) (py_int (now ?t4 - 1300))
       \<in> set (acts (handle_check_result (mon (handle_check_result ?m3 ?t3)) ?t4))"
    by blast
  then have c5: "Call_send_recovery ''proxy.example.org'' 900
       \<in> set (acts (handle_check_result (mon (handle_check_result ?m3 ?t3)) ?t4))"
    by (simp only: d p)
  from c1 c3 sf c5 show ?thesis by blast
qed

end
